theory Spec2Isabelle
  imports Complex_Main "HOL-Library.Word"
begin

section \<open>Strings of the runtime\<close>

text \<open>
  A string of the program is a sequence of UTF-16 code units: \<open>length\<close> counts code
  units, and \<open>trim\<close>, \<open>replace\<close> and a regular expression without the \<open>u\<close> flag
  work on code units. The fixed texts of the program (messages, header names) are ASCII
  and are written as HOL strings; \<open>lit\<close> turns one into code units.
\<close>

type_synonym jschar = "16 word"
type_synonym jsstring = "jschar list"

definition lit :: "string \<Rightarrow> jsstring" where
  "lit s = map of_char s"

text \<open>
  White space and line terminators, the characters that \<open>String.prototype.trim\<close> strips
  and that \<open>\s\<close> matches: TAB, LF, VT, FF, CR, SPACE, NBSP, U+1680, U+2000 to U+200A,
  U+2028, U+2029, U+202F, U+205F, U+3000 and U+FEFF.
\<close>

definition is_space :: "jschar \<Rightarrow> bool" where
  "is_space c \<longleftrightarrow>
     c = 0x09 \<or> c = 0x0A \<or> c = 0x0B \<or> c = 0x0C \<or> c = 0x0D \<or> c = 0x20 \<or> c = 0xA0 \<or>
     c = 0x1680 \<or> (0x2000 \<le> c \<and> c \<le> 0x200A) \<or> c = 0x2028 \<or> c = 0x2029 \<or>
     c = 0x202F \<or> c = 0x205F \<or> c = 0x3000 \<or> c = 0xFEFF"

definition is_digit :: "jschar \<Rightarrow> bool" where
  "is_digit c \<longleftrightarrow> 0x30 \<le> c \<and> c \<le> 0x39"

definition trim :: "jsstring \<Rightarrow> jsstring" where
  "trim s = rev (dropWhile is_space (rev (dropWhile is_space s)))"

section \<open>Regular expressions\<close>

text \<open>
  The two patterns of the program are anchored at both ends and have no flags, so
  \<open>test\<close> asks whether the whole string is in the language of the pattern. A pattern
  is a term of \<open>rx\<close>; \<open>regex_test\<close> decides membership by taking the derivative of the
  pattern by each code unit in turn.
\<close>

datatype rx =
    Fail
  | Eps
  | Cls "jschar \<Rightarrow> bool"
  | Or rx rx
  | Cat rx rx
  | Rep rx

definition Plus :: "rx \<Rightarrow> rx" where
  "Plus r = Cat r (Rep r)"

definition Chr :: "jschar \<Rightarrow> rx" where
  "Chr c = Cls (\<lambda>x. x = c)"

primrec nullable :: "rx \<Rightarrow> bool" where
  "nullable Fail = False"
| "nullable Eps = True"
| "nullable (Cls p) = False"
| "nullable (Or r s) = (nullable r \<or> nullable s)"
| "nullable (Cat r s) = (nullable r \<and> nullable s)"
| "nullable (Rep r) = True"

primrec deriv :: "jschar \<Rightarrow> rx \<Rightarrow> rx" where
  "deriv c Fail = Fail"
| "deriv c Eps = Fail"
| "deriv c (Cls p) = (if p c then Eps else Fail)"
| "deriv c (Or r s) = Or (deriv c r) (deriv c s)"
| "deriv c (Cat r s) =
     (if nullable r then Or (Cat (deriv c r) s) (deriv c s) else Cat (deriv c r) s)"
| "deriv c (Rep r) = Cat (deriv c r) (Rep r)"

primrec derivs :: "jsstring \<Rightarrow> rx \<Rightarrow> rx" where
  "derivs [] r = r"
| "derivs (c # cs) r = derivs cs (deriv c r)"

definition regex_test :: "rx \<Rightarrow> jsstring \<Rightarrow> bool" where
  "regex_test r s = nullable (derivs s r)"

text \<open>The language of a pattern, the meaning that \<open>regex_test\<close> is checked against.\<close>

inductive_set star :: "jsstring set \<Rightarrow> jsstring set" for L :: "jsstring set" where
  star_nil: "[] \<in> star L"
| star_app: "u \<in> L \<Longrightarrow> v \<in> star L \<Longrightarrow> u @ v \<in> star L"

primrec lang :: "rx \<Rightarrow> jsstring set" where
  "lang Fail = {}"
| "lang Eps = {[]}"
| "lang (Cls p) = {[c] | c. p c}"
| "lang (Or r s) = lang r \<union> lang s"
| "lang (Cat r s) = {u @ v | u v. u \<in> lang r \<and> v \<in> lang s}"
| "lang (Rep r) = star (lang r)"

section \<open>Values\<close>

text \<open>
  A number of the runtime is a double: a finite one is the rational it denotes
  (\<open>-0\<close> is \<open>Fin 0\<close>, which prints and tests like \<open>0\<close>), and a JSON literal too large
  for a double parses to an infinity. A parsed body is a \<open>json\<close>; an object keeps
  its members in source order, a later duplicate key overriding an earlier one. A value
  read out of a body is a \<open>json option\<close>, \<open>None\<close> being \<open>undefined\<close>.
\<close>

datatype jsnum = Fin rat | PosInf | NegInf

datatype json =
    JNull
  | JBool bool
  | JNum jsnum
  | JStr jsstring
  | JArr "json list"
  | JObj "(jsstring \<times> json) list"

datatype js_error = TypeError | SyntaxError | ReferenceError

definition andThen :: "'e + 'a \<Rightarrow> ('a \<Rightarrow> 'e + 'b) \<Rightarrow> 'e + 'b" where
  "andThen m f = (case m of Inl e \<Rightarrow> Inl e | Inr x \<Rightarrow> f x)"

text \<open>
  Two conversions of the runtime are not computed here and are taken as given:
  the decimal rendering of a number that is not an integer below \<open>2^53\<close> in magnitude
  (shortest round-trip digits, exponent notation), and the reading of a string as a
  number (\<open>None\<close> is \<open>NaN\<close>).
\<close>

record runtime =
  number_to_string :: "jsnum \<Rightarrow> jsstring"
  string_to_number :: "jsstring \<Rightarrow> jsnum option"

fun truthy :: "json option \<Rightarrow> bool" where
  "truthy None = False"
| "truthy (Some JNull) = False"
| "truthy (Some (JBool b)) = b"
| "truthy (Some (JNum (Fin r))) = (r \<noteq> 0)"
| "truthy (Some (JNum PosInf)) = True"
| "truthy (Some (JNum NegInf)) = True"
| "truthy (Some (JStr s)) = (s \<noteq> [])"
| "truthy (Some (JArr xs)) = True"
| "truthy (Some (JObj kvs)) = True"

fun typeof :: "json option \<Rightarrow> string" where
  "typeof None = ''undefined''"
| "typeof (Some JNull) = ''object''"
| "typeof (Some (JBool b)) = ''boolean''"
| "typeof (Some (JNum n)) = ''number''"
| "typeof (Some (JStr s)) = ''string''"
| "typeof (Some (JArr xs)) = ''object''"
| "typeof (Some (JObj kvs)) = ''object''"

text \<open>
  Reading a property. On \<open>undefined\<close> and \<open>null\<close> it raises; on an object it is the
  last member with that key; an array and a string have \<open>length\<close>. The program reads
  the keys \<open>name\<close>, \<open>email\<close>, \<open>message\<close>, \<open>mobile\<close>, \<open>subject\<close> and \<open>length\<close>
  only, none of which is inherited from a prototype or is an index.
\<close>

fun get_prop :: "json option \<Rightarrow> jsstring \<Rightarrow> js_error + json option" where
  "get_prop None k = Inl TypeError"
| "get_prop (Some JNull) k = Inl TypeError"
| "get_prop (Some (JObj kvs)) k = Inr (map_of (rev kvs) k)"
| "get_prop (Some (JArr xs)) k =
     Inr (if k = lit ''length'' then Some (JNum (Fin (of_nat (length xs)))) else None)"
| "get_prop (Some (JStr s)) k =
     Inr (if k = lit ''length'' then Some (JNum (Fin (of_nat (length s)))) else None)"
| "get_prop (Some (JNum n)) k = Inr None"
| "get_prop (Some (JBool b)) k = Inr None"

text \<open>\<open>x.trim()\<close>: a method of strings only; the call raises on any other value.\<close>

fun trim_js :: "json option \<Rightarrow> js_error + jsstring" where
  "trim_js (Some (JStr s)) = Inr (trim s)"
| "trim_js v = Inl TypeError"

subsection \<open>Conversion to a string\<close>

function dec :: "nat \<Rightarrow> jsstring" where
  "dec n = (if n < 10 then [of_nat (48 + n)] else dec (n div 10) @ [of_nat (48 + n mod 10)])"
  by pat_completeness auto
termination
  by (relation "measure (\<lambda>n. n)") auto

definition safe_integer :: "rat \<Rightarrow> bool" where
  "safe_integer r \<longleftrightarrow> of_int \<lfloor>r\<rfloor> = r \<and> \<bar>r\<bar> < 2 ^ 53"

fun number_string :: "runtime \<Rightarrow> jsnum \<Rightarrow> jsstring" where
  "number_string rt (Fin r) =
     (if safe_integer r
      then (if r < 0 then lit ''-'' @ dec (nat (- \<lfloor>r\<rfloor>)) else dec (nat \<lfloor>r\<rfloor>))
      else number_to_string rt (Fin r))"
| "number_string rt PosInf = lit ''Infinity''"
| "number_string rt NegInf = lit ''-Infinity''"

fun join :: "jsstring \<Rightarrow> jsstring list \<Rightarrow> jsstring" where
  "join sep [] = []"
| "join sep [x] = x"
| "join sep (x # y # ys) = x @ sep @ join sep (y # ys)"

fun sequence :: "('e + 'a) list \<Rightarrow> 'e + 'a list" where
  "sequence [] = Inr []"
| "sequence (m # ms) =
     (case m of Inl e \<Rightarrow> Inl e
      | Inr x \<Rightarrow> (case sequence ms of Inl e \<Rightarrow> Inl e | Inr xs \<Rightarrow> Inr (x # xs)))"

text \<open>
  \<open>String(v)\<close>, which is also what a template literal applies to an interpolated
  value. An array joins the strings of its elements with a comma, \<open>null\<close> elements
  giving the empty string. An object prints as \<open>[object Object]\<close>, unless it has a
  member \<open>toString\<close> of its own: that member, coming from JSON, is not callable, the
  inherited \<open>valueOf\<close> returns the object itself, and the conversion raises.
\<close>

fun to_string :: "runtime \<Rightarrow> json \<Rightarrow> js_error + jsstring" where
  "to_string rt JNull = Inr (lit ''null'')"
| "to_string rt (JBool b) = Inr (lit (if b then ''true'' else ''false''))"
| "to_string rt (JNum n) = Inr (number_string rt n)"
| "to_string rt (JStr s) = Inr s"
| "to_string rt (JArr xs) =
     andThen (sequence (map (\<lambda>x. if x = JNull then Inr [] else to_string rt x) xs))
       (\<lambda>ss. Inr (join (lit '','') ss))"
| "to_string rt (JObj kvs) =
     (if lit ''toString'' \<in> fst ` set kvs then Inl TypeError else Inr (lit ''[object Object]''))"

definition String :: "runtime \<Rightarrow> json option \<Rightarrow> js_error + jsstring" where
  "String rt v = (case v of None \<Rightarrow> Inr (lit ''undefined'') | Some x \<Rightarrow> to_string rt x)"

text \<open>
  \<open>v > bound\<close> for a number \<open>bound\<close>: the left side is converted to a number, and the
  comparison is false on \<open>NaN\<close>. An array or an object converts through its string.
\<close>

fun to_number :: "runtime \<Rightarrow> json option \<Rightarrow> js_error + jsnum option" where
  "to_number rt None = Inr None"
| "to_number rt (Some JNull) = Inr (Some (Fin 0))"
| "to_number rt (Some (JBool b)) = Inr (Some (Fin (if b then 1 else 0)))"
| "to_number rt (Some (JNum n)) = Inr (Some n)"
| "to_number rt (Some (JStr s)) = Inr (string_to_number rt s)"
| "to_number rt (Some (JArr xs)) =
     andThen (to_string rt (JArr xs)) (\<lambda>s. Inr (string_to_number rt s))"
| "to_number rt (Some (JObj kvs)) =
     andThen (to_string rt (JObj kvs)) (\<lambda>s. Inr None)"

fun num_gt :: "jsnum option \<Rightarrow> rat \<Rightarrow> bool" where
  "num_gt None b = False"
| "num_gt (Some (Fin r)) b = (r > b)"
| "num_gt (Some PosInf) b = True"
| "num_gt (Some NegInf) b = False"

definition js_gt :: "runtime \<Rightarrow> json option \<Rightarrow> rat \<Rightarrow> js_error + bool" where
  "js_gt rt v b = andThen (to_number rt v) (\<lambda>n. Inr (num_gt n b))"

section \<open>The validator\<close>

text \<open>
  The result of \<open>validateInput\<close>: the flag, and the reason when the flag is false.
\<close>

record ValidationResult =
  isValid :: bool
  message :: "string option"

text \<open>The pattern \<^verbatim>\<open>/^[^\s@]+@[^\s@]+\.[^\s@]+$/\<close>.\<close>

definition not_space_at :: "jschar \<Rightarrow> bool" where
  "not_space_at c \<longleftrightarrow> \<not> is_space c \<and> c \<noteq> 0x40"

definition emailRegex :: rx where
  "emailRegex =
     Cat (Plus (Cls not_space_at))
       (Cat (Chr 0x40)
         (Cat (Plus (Cls not_space_at))
           (Cat (Chr 0x2E) (Plus (Cls not_space_at)))))"

text \<open>The pattern \<^verbatim>\<open>/^\d+$/\<close>.\<close>

definition digitsRegex :: rx where
  "digitsRegex = Plus (Cls is_digit)"

text \<open>
  \<^verbatim>\<open>!v || typeof v !== 'string' || v.trim().length === 0\<close>, the test of a required
  field; the disjunction is evaluated from the left and stops at the first true operand.
\<close>

definition field_missing :: "json option \<Rightarrow> js_error + bool" where
  "field_missing v =
     (if \<not> truthy v then Inr True
      else if typeof v \<noteq> ''string'' then Inr True
      else andThen (trim_js v) (\<lambda>t. Inr (length t = 0)))"

text \<open>
  The mobile rule: skipped when the value is \<open>undefined\<close>, \<open>null\<close> or the empty
  string; otherwise the value is converted with \<open>String\<close>, trimmed and tested.
\<close>

definition mobile_invalid :: "runtime \<Rightarrow> json option \<Rightarrow> js_error + bool" where
  "mobile_invalid rt mobile =
     (if mobile \<noteq> None \<and> mobile \<noteq> Some JNull \<and> mobile \<noteq> Some (JStr []) then
        andThen (String rt mobile) (\<lambda>s.
          let mobileStr = trim s in
          Inr (\<not> regex_test digitsRegex mobileStr \<or> length mobileStr < 7 \<or> length mobileStr > 15))
      else Inr False)"

text \<open>\<^verbatim>\<open>data.subject && data.subject.length > 200\<close>.\<close>

definition subject_too_long :: "runtime \<Rightarrow> json option \<Rightarrow> js_error + bool" where
  "subject_too_long rt subject =
     (if truthy subject then
        andThen (get_prop subject (lit ''length'')) (\<lambda>l. js_gt rt l 200)
      else Inr False)"

text \<open>
  \<open>validateInput\<close>, the same text in both source files. It reads properties of the
  body and never writes, so a property read again by a later rule is the value bound
  at its first read.
\<close>

definition validateInput :: "runtime \<Rightarrow> json \<Rightarrow> js_error + ValidationResult" where
  "validateInput rt body =
    (let data = Some body in
     if \<not> truthy data \<or> typeof data \<noteq> ''object'' then
       Inr \<lparr>isValid = False, message = Some ''Invalid request body''\<rparr>
     else
     andThen (get_prop data (lit ''name'')) (\<lambda>name.
     andThen (field_missing name) (\<lambda>no_name.
     if no_name then Inr \<lparr>isValid = False, message = Some ''Name is required''\<rparr> else
     andThen (get_prop data (lit ''email'')) (\<lambda>email.
     andThen (field_missing email) (\<lambda>no_email.
     if no_email then Inr \<lparr>isValid = False, message = Some ''Email is required''\<rparr> else
     andThen (get_prop data (lit ''message'')) (\<lambda>msg.
     andThen (field_missing msg) (\<lambda>no_message.
     if no_message then Inr \<lparr>isValid = False, message = Some ''Message is required''\<rparr> else
     andThen (trim_js email) (\<lambda>e.
     if \<not> regex_test emailRegex e then
       Inr \<lparr>isValid = False, message = Some ''Please provide a valid email address''\<rparr> else
     andThen (get_prop data (lit ''mobile'')) (\<lambda>mobile.
     andThen (mobile_invalid rt mobile) (\<lambda>bad_mobile.
     if bad_mobile then
       Inr \<lparr>isValid = False, message = Some ''Mobile number must be valid''\<rparr> else
     andThen (trim_js name) (\<lambda>n.
     if length n > 100 then
       Inr \<lparr>isValid = False, message = Some ''Name must be less than 100 characters''\<rparr> else
     andThen (get_prop data (lit ''subject'')) (\<lambda>subject.
     andThen (subject_too_long rt subject) (\<lambda>long_subject.
     if long_subject then
       Inr \<lparr>isValid = False, message = Some ''Subject must be less than 200 characters''\<rparr> else
     andThen (trim_js msg) (\<lambda>m.
     if length m > 1000 then
       Inr \<lparr>isValid = False, message = Some ''Message must be less than 1000 characters''\<rparr>
     else Inr \<lparr>isValid = True, message = None\<rparr>))))))))))))))"

section \<open>The email\<close>

text \<open>The four settings of the deployment; one that is not set reads as \<open>undefined\<close>.\<close>

record Env =
  MAILTRAP_API_TOKEN :: "jsstring option"
  FROM_EMAIL :: "jsstring option"
  TO_EMAIL :: "jsstring option"
  MAILTRAP_API_URL :: "jsstring option"

definition unset :: "jsstring option \<Rightarrow> bool" where
  "unset v \<longleftrightarrow> v = None \<or> v = Some []"

definition setting_string :: "jsstring option \<Rightarrow> jsstring" where
  "setting_string v = (case v of None \<Rightarrow> lit ''undefined'' | Some s \<Rightarrow> s)"

definition js_or :: "json option \<Rightarrow> json option \<Rightarrow> json option" where
  "js_or a b = (if truthy a then a else b)"

text \<open>\<open>s.replace(/c/g, r)\<close> for a pattern that is one character.\<close>

definition replace_all :: "jschar \<Rightarrow> jsstring \<Rightarrow> jsstring \<Rightarrow> jsstring" where
  "replace_all c r s = concat (map (\<lambda>x. if x = c then r else [x]) s)"

definition escapeHtml :: "jsstring \<Rightarrow> jsstring" where
  "escapeHtml t =
     replace_all 0x27 (lit ''&#039;'')
       (replace_all 0x22 (lit ''&quot;'')
         (replace_all 0x3E (lit ''&gt;'')
           (replace_all 0x3C (lit ''&lt;'')
             (replace_all 0x26 (lit ''&amp;'') t))))"

text \<open>
  \<open>escapeHtml\<close> is typed for strings, but its argument is a property of the body and
  the types are gone at run time: on a value that is not a string there is no method
  \<open>replace\<close> to call and the call raises.
\<close>

fun escapeHtml_js :: "json option \<Rightarrow> js_error + jsstring" where
  "escapeHtml_js (Some (JStr s)) = Inr (escapeHtml s)"
| "escapeHtml_js v = Inl TypeError"

fun replace_js :: "jschar \<Rightarrow> jsstring \<Rightarrow> json option \<Rightarrow> js_error + jsstring" where
  "replace_js c r (Some (JStr s)) = Inr (replace_all c r s)"
| "replace_js c r v = Inl TypeError"

fun text_lines :: "string list \<Rightarrow> string" where
  "text_lines [] = []"
| "text_lines [l] = l"
| "text_lines (l # m # ls) = l @ CHR 0x0A # text_lines (m # ls)"

subsection \<open>The HTML template\<close>

text \<open>
  The fixed text of \<open>htmlContent\<close>, cut at its interpolations. Each piece is given line
  by line; a piece starts after an interpolation and stops before the next one.
\<close>

definition html_head :: string where
  \<open>html_head = text_lines
    ['''',
     ''<!DOCTYPE html>'',
     ''<html lang="en">'',
     ''<head>'',
     ''  <meta charset="UTF-8">'',
     ''  <meta name="viewport" content="width=device-width, initial-scale=1.0">'',
     ''  <title>New Contact Form Submission</title>'',
     ''</head>'',
     ''<body style="margin: 0; padding: 0; font-family: -apple-system, BlinkMacSystemFont, 'Segoe UI', Roboto, 'Helvetica Neue', Arial, sans-serif; background-color: #f5f5f5;">'',
     ''  <table role="presentation" cellspacing="0" cellpadding="0" border="0" width="100%" style="background-color: #f5f5f5;">'',
     ''    <tr>'',
     ''      <td style="padding: 40px 20px;">'',
     ''        <table role="presentation" cellspacing="0" cellpadding="0" border="0" width="600" style="max-width: 600px; margin: 0 auto; background-color: #ffffff; border-radius: 8px; box-shadow: 0 2px 4px rgba(0, 0, 0, 0.1);">'',
     ''          <!-- Header -->'',
     ''          <tr>'',
     ''            <td style="padding: 32px 40px; background-color: #1a1a1a; border-radius: 8px 8px 0 0;">'',
     ''              <h1 style="margin: 0; font-size: 24px; font-weight: 600; color: #ffffff; letter-spacing: -0.5px;">New Contact Form Submission</h1>'',
     ''            </td>'',
     ''          </tr>'',
     '''',
     ''          <!-- Content -->'',
     ''          <tr>'',
     ''            <td style="padding: 40px;">'',
     ''              <!-- Contact Information Section -->'',
     ''              <table role="presentation" cellspacing="0" cellpadding="0" border="0" width="100%">'',
     ''                <tr>'',
     ''                  <td style="padding-bottom: 24px;">'',
     ''                    <table role="presentation" cellspacing="0" cellpadding="0" border="0" width="100%">'',
     ''                      <tr>'',
     ''                        <td style="width: 120px; padding-bottom: 12px; vertical-align: top;">'',
     ''                          <span style="font-size: 13px; font-weight: 600; color: #666666; text-transform: uppercase; letter-spacing: 0.5px;">Name</span>'',
     ''                        </td>'',
     ''                        <td style="padding-bottom: 12px;">'',
     ''                          <span style="font-size: 15px; color: #1a1a1a; font-weight: 500;">'']\<close>

definition html_after_name :: string where
  \<open>html_after_name = text_lines
    [''</span>'',
     ''                        </td>'',
     ''                      </tr>'',
     ''                      <tr>'',
     ''                        <td style="width: 120px; padding-bottom: 12px; vertical-align: top;">'',
     ''                          <span style="font-size: 13px; font-weight: 600; color: #666666; text-transform: uppercase; letter-spacing: 0.5px;">Email</span>'',
     ''                        </td>'',
     ''                        <td style="padding-bottom: 12px;">'',
     ''                          <a href="mailto:'']\<close>

definition html_between_email :: string where
  \<open>html_between_email = text_lines
    [''" style="font-size: 15px; color: #2563eb; text-decoration: none; font-weight: 500;">'']\<close>

definition html_after_email :: string where
  \<open>html_after_email = text_lines
    [''</a>'',
     ''                        </td>'',
     ''                      </tr>'',
     ''                      '']\<close>

definition html_mobile_head :: string where
  \<open>html_mobile_head = text_lines
    ['''',
     ''                      <tr>'',
     ''                        <td style="width: 120px; padding-bottom: 12px; vertical-align: top;">'',
     ''                          <span style="font-size: 13px; font-weight: 600; color: #666666; text-transform: uppercase; letter-spacing: 0.5px;">Mobile</span>'',
     ''                        </td>'',
     ''                        <td style="padding-bottom: 12px;">'',
     ''                          <a href="tel:'']\<close>

definition html_mobile_between :: string where
  \<open>html_mobile_between = text_lines
    [''" style="font-size: 15px; color: #2563eb; text-decoration: none; font-weight: 500;">'']\<close>

definition html_mobile_tail :: string where
  \<open>html_mobile_tail = text_lines
    [''</a>'',
     ''                        </td>'',
     ''                      </tr>'',
     ''                      '']\<close>

definition html_after_mobile :: string where
  \<open>html_after_mobile = text_lines
    ['''',
     ''                      <tr>'',
     ''                        <td style="width: 120px; padding-bottom: 12px; vertical-align: top;">'',
     ''                          <span style="font-size: 13px; font-weight: 600; color: #666666; text-transform: uppercase; letter-spacing: 0.5px;">Subject</span>'',
     ''                        </td>'',
     ''                        <td style="padding-bottom: 12px;">'',
     ''                          <span style="font-size: 15px; color: #1a1a1a; font-weight: 500;">'']\<close>

definition html_after_subject :: string where
  \<open>html_after_subject = text_lines
    [''</span>'',
     ''                        </td>'',
     ''                      </tr>'',
     ''                    </table>'',
     ''                  </td>'',
     ''                </tr>'',
     ''              </table>'',
     '''',
     ''              <!-- Divider -->'',
     ''              <table role="presentation" cellspacing="0" cellpadding="0" border="0" width="100%">'',
     ''                <tr>'',
     ''                  <td style="padding: 24px 0;">'',
     ''                    <div style="height: 1px; background-color: #e5e5e5;"></div>'',
     ''                  </td>'',
     ''                </tr>'',
     ''              </table>'',
     '''',
     ''              <!-- Message Section -->'',
     ''              <table role="presentation" cellspacing="0" cellpadding="0" border="0" width="100%">'',
     ''                <tr>'',
     ''                  <td style="padding-bottom: 12px;">'',
     ''                    <span style="font-size: 13px; font-weight: 600; color: #666666; text-transform: uppercase; letter-spacing: 0.5px;">Message</span>'',
     ''                  </td>'',
     ''                </tr>'',
     ''                <tr>'',
     ''                  <td style="padding: 20px; background-color: #f9fafb; border-radius: 6px; border-left: 3px solid #2563eb;">'',
     ''                    <div style="font-size: 15px; color: #1a1a1a; line-height: 1.6; white-space: pre-wrap;">'']\<close>

definition html_tail :: string where
  \<open>html_tail = text_lines
    [''</div>'',
     ''                  </td>'',
     ''                </tr>'',
     ''              </table>'',
     ''            </td>'',
     ''          </tr>'',
     '''',
     ''          <!-- Footer -->'',
     ''          <tr>'',
     ''            <td style="padding: 24px 40px; background-color: #f9fafb; border-top: 1px solid #e5e5e5; border-radius: 0 0 8px 8px;">'',
     ''              <p style="margin: 0; font-size: 12px; color: #999999; text-align: center;">'',
     ''                This message was sent via the contact form on'',
     ''                <a href="https://desallyltd.com" style="color: #2563eb; text-decoration: none;">desallyltd.com</a>'',
     ''              </p>'',
     ''            </td>'',
     ''          </tr>'',
     ''        </table>'',
     ''      </td>'',
     ''    </tr>'',
     ''  </table>'',
     ''</body>'',
     ''</html>'',
     ''    '']\<close>

definition htmlContent ::
    "jsstring \<Rightarrow> jsstring \<Rightarrow> jsstring \<Rightarrow> jsstring \<Rightarrow> jsstring \<Rightarrow> jsstring" where
  "htmlContent safeName safeEmail safeMobile safeSubject safeMessage =
     lit html_head @ safeName @ lit html_after_name @ safeEmail @ lit html_between_email @
     safeEmail @ lit html_after_email @
     (if safeMobile \<noteq> [] then
        lit html_mobile_head @ safeMobile @ lit html_mobile_between @ safeMobile @
        lit html_mobile_tail
      else []) @
     lit html_after_mobile @ safeSubject @ lit html_after_subject @ safeMessage @ lit html_tail"

subsection \<open>The plain text template\<close>

definition textContent ::
    "jsstring \<Rightarrow> jsstring \<Rightarrow> jsstring \<Rightarrow> jsstring \<Rightarrow> jsstring \<Rightarrow> jsstring" where
  "textContent name email mobileLine subject msg =
     lit (text_lines ['''', ''New Contact Form Submission'', '''', ''Name: '']) @ name @
     lit (text_lines ['''', ''Email: '']) @ email @ mobileLine @
     lit (text_lines ['''', ''Subject: '']) @ subject @
     lit (text_lines ['''', '''', ''Message:'', '''']) @ msg @
     lit (text_lines ['''', '''', ''---'',
       ''This message was sent via the contact form on desallyltd.com'', ''    ''])"

subsection \<open>The outbound call\<close>

record EmailPayload =
  from_email :: "jsstring option"
  to_email :: "jsstring option"
  subject_line :: jsstring
  text_part :: jsstring
  html_part :: jsstring
  reply_to :: "json option"

record fetch_request =
  url :: "jsstring option"
  authorization :: jsstring
  payload :: EmailPayload

text \<open>
  What the awaited call gives back: a response with its status, or an exception. It
  is the answer of the email service and is a parameter of the handler.
\<close>

datatype fetch_outcome = Responded nat | Rejected

definition ok :: "nat \<Rightarrow> bool" where
  "ok s \<longleftrightarrow> 200 \<le> s \<and> s \<le> 299"

text \<open>
  The body of \<open>sendEmail\<close> up to its call of \<open>fetch\<close>: \<open>Missing\<close> is the early return
  on a setting that is not there, \<open>Ready\<close> carries what is handed to \<open>fetch\<close>, and
  \<open>Inl\<close> is an exception raised on the way.
\<close>

datatype prepared = Missing | Ready fetch_request

definition emailRequest :: "runtime \<Rightarrow> Env \<Rightarrow> json \<Rightarrow> js_error + prepared" where
  "emailRequest rt env body =
    (let contactData = Some body;
         apiToken = MAILTRAP_API_TOKEN env;
         fromEmail = FROM_EMAIL env;
         toEmail = TO_EMAIL env;
         mailtrapApiUrl = MAILTRAP_API_URL env in
     if unset apiToken \<or> unset fromEmail \<or> unset toEmail then Inr Missing else
     andThen (get_prop contactData (lit ''subject'')) (\<lambda>subj.
     andThen (String rt (js_or subj (Some (JStr (lit ''New Inquiry''))))) (\<lambda>subjectText.
     andThen (get_prop contactData (lit ''name'')) (\<lambda>name.
     andThen (escapeHtml_js name) (\<lambda>safeName.
     andThen (get_prop contactData (lit ''email'')) (\<lambda>email.
     andThen (escapeHtml_js email) (\<lambda>safeEmail.
     andThen (get_prop contactData (lit ''mobile'')) (\<lambda>mobile.
     andThen (if truthy mobile then escapeHtml_js mobile else Inr []) (\<lambda>safeMobile.
     andThen (if truthy subj then escapeHtml_js subj
              else Inr (lit ''No subject provided'')) (\<lambda>safeSubject.
     andThen (get_prop contactData (lit ''message'')) (\<lambda>msg.
     andThen (escapeHtml_js msg) (\<lambda>escaped.
     let safeMessage = replace_all 0x0A (lit ''<br>'') escaped in
     andThen (String rt name) (\<lambda>nameText.
     andThen (String rt email) (\<lambda>emailText.
     andThen (if truthy mobile
              then andThen (String rt mobile) (\<lambda>m. Inr (0x0A # lit ''Mobile: '' @ m))
              else Inr []) (\<lambda>mobileLine.
     andThen (String rt (js_or subj (Some (JStr (lit ''No subject provided''))))) (\<lambda>subjectLine.
     andThen (String rt msg) (\<lambda>messageText.
     Inr (Ready
       \<lparr>url = mailtrapApiUrl,
        authorization = lit ''Bearer '' @ setting_string apiToken,
        payload =
          \<lparr>from_email = fromEmail,
           to_email = toEmail,
           subject_line = lit ''Contact Form: '' @ subjectText,
           text_part = textContent nameText emailText mobileLine subjectLine messageText,
           html_part = htmlContent safeName safeEmail safeMobile safeSubject safeMessage,
           reply_to = email\<rparr>\<rparr>))))))))))))))))))"

text \<open>
  \<open>sendEmail\<close>: everything is inside one \<open>try\<close>, and the \<open>catch\<close> answers
  \<open>success: false\<close>, as do the early return and a response that is not \<open>ok\<close>.
\<close>

definition sendEmail ::
    "(fetch_request \<Rightarrow> fetch_outcome) \<Rightarrow> runtime \<Rightarrow> Env \<Rightarrow> json \<Rightarrow> bool" where
  "sendEmail fetch rt env body =
     (case emailRequest rt env body of
        Inl error \<Rightarrow> False
      | Inr Missing \<Rightarrow> False
      | Inr (Ready req) \<Rightarrow>
          (case fetch req of
             Responded s \<Rightarrow> ok s
           | Rejected \<Rightarrow> False))"

subsection \<open>The second source file\<close>

text \<open>
  \<open>src/index.ts\<close> has its own \<open>sendEmail\<close>. It reads the settings from a variable
  \<open>env\<close> that the file does not declare (\<open>None\<close>: nothing is bound to it, and the
  read raises), and it builds a shorter HTML text from the properties as they are.
\<close>

definition htmlContent_index ::
    "jsstring \<Rightarrow> jsstring \<Rightarrow> jsstring \<Rightarrow> jsstring \<Rightarrow> jsstring \<Rightarrow> jsstring" where
  \<open>htmlContent_index name email mobileBlock subject msg =
     lit (text_lines ['''',
       ''      <h2>New Contact Form Submission</h2>'',
       ''      <p><strong>Name:</strong> '']) @ name @
     lit (text_lines [''</p>'',
       ''      <p><strong>Email:</strong> '']) @ email @
     lit (text_lines [''</p>'',
       ''      '']) @ mobileBlock @
     lit (text_lines ['''',
       ''      <p><strong>Subject:</strong> '']) @ subject @
     lit (text_lines [''</p>'',
       ''      <h3>Message:</h3>'',
       ''      <p>'']) @ msg @
     lit (text_lines [''</p>'',
       ''      <hr>'',
       ''      <p><em>This message was sent via the contact form on desallyltd.com</em></p>'',
       ''    ''])\<close>

definition emailRequest_index ::
    "runtime \<Rightarrow> Env option \<Rightarrow> json \<Rightarrow> js_error + prepared" where
  "emailRequest_index rt global_env body =
    (case global_env of
       None \<Rightarrow> Inl ReferenceError
     | Some env \<Rightarrow>
    (let contactData = Some body;
         apiToken = MAILTRAP_API_TOKEN env;
         fromEmail = FROM_EMAIL env;
         toEmail = TO_EMAIL env;
         mailtrapApiUrl = MAILTRAP_API_URL env in
     if unset apiToken \<or> unset fromEmail \<or> unset toEmail then Inr Missing else
     andThen (get_prop contactData (lit ''subject'')) (\<lambda>subj.
     andThen (String rt (js_or subj (Some (JStr (lit ''New Inquiry''))))) (\<lambda>subjectText.
     andThen (get_prop contactData (lit ''name'')) (\<lambda>name.
     andThen (String rt name) (\<lambda>nameText.
     andThen (get_prop contactData (lit ''email'')) (\<lambda>email.
     andThen (String rt email) (\<lambda>emailText.
     andThen (get_prop contactData (lit ''mobile'')) (\<lambda>mobile.
     andThen (if truthy mobile
              then andThen (String rt mobile) (\<lambda>m.
                     Inr (lit ''<p><strong>Mobile:</strong> '' @ m @ lit ''</p>''))
              else Inr []) (\<lambda>mobileBlock.
     andThen (String rt (js_or subj (Some (JStr (lit ''No subject provided''))))) (\<lambda>subjectLine.
     andThen (get_prop contactData (lit ''message'')) (\<lambda>msg.
     andThen (replace_js 0x0A (lit ''<br>'') msg) (\<lambda>messageHtml.
     andThen (if truthy mobile
              then andThen (String rt mobile) (\<lambda>m. Inr (0x0A # lit ''Mobile: '' @ m))
              else Inr []) (\<lambda>mobileLine.
     andThen (String rt msg) (\<lambda>messageText.
     Inr (Ready
       \<lparr>url = mailtrapApiUrl,
        authorization = lit ''Bearer '' @ setting_string apiToken,
        payload =
          \<lparr>from_email = fromEmail,
           to_email = toEmail,
           subject_line = lit ''Contact Form: '' @ subjectText,
           text_part = textContent nameText emailText mobileLine subjectLine messageText,
           html_part = htmlContent_index nameText emailText mobileBlock subjectLine messageHtml,
           reply_to = email\<rparr>\<rparr>))))))))))))))))"

section \<open>The handler\<close>

text \<open>
  A request as the handler reads it: the method, the path of its URL, and what
  \<open>request.json()\<close> gives, \<open>None\<close> when the body is not JSON and the call raises. A
  response is a status, the headers in the order they are set, and the body, \<open>None\<close>
  for the \<open>null\<close> body of the preflight answer.
\<close>

record request =
  req_method :: string
  req_pathname :: string
  req_json :: "json option"

record response =
  status :: nat
  headers :: "(string \<times> string) list"
  body :: "string option"

subsection \<open>JSON text of a response\<close>

definition hex_char :: "nat \<Rightarrow> char" where
  "hex_char n = (if n < 10 then char_of (48 + n) else char_of (87 + n))"

definition quote_char :: "char \<Rightarrow> string" where
  "quote_char c =
     (if c = CHR 0x22 then [CHR 0x5C, CHR 0x22]
      else if c = CHR 0x5C then [CHR 0x5C, CHR 0x5C]
      else if c = CHR 0x08 then [CHR 0x5C, CHR ''b'']
      else if c = CHR 0x09 then [CHR 0x5C, CHR ''t'']
      else if c = CHR 0x0A then [CHR 0x5C, CHR ''n'']
      else if c = CHR 0x0C then [CHR 0x5C, CHR ''f'']
      else if c = CHR 0x0D then [CHR 0x5C, CHR ''r'']
      else if (of_char c :: nat) < 32 then
        [CHR 0x5C, CHR ''u'', CHR ''0'', CHR ''0'',
         hex_char (of_char c div 16), hex_char (of_char c mod 16)]
      else [c])"

definition quote :: "string \<Rightarrow> string" where
  "quote s = CHR 0x22 # concat (map quote_char s) @ [CHR 0x22]"

text \<open>
  \<open>JSON.stringify\<close> of the two-member object \<open>{status, message}\<close> that every body of
  a response is.
\<close>

definition JSON_stringify :: "string \<Rightarrow> string \<Rightarrow> string" where
  "JSON_stringify st msg =
     ''{'' @ quote ''status'' @ '':'' @ quote st @ '','' @
     quote ''message'' @ '':'' @ quote msg @ ''}''"

definition getCORSHeaders :: "(string \<times> string) list" where
  "getCORSHeaders =
     [(''Access-Control-Allow-Origin'', ''*''),
      (''Access-Control-Allow-Methods'', ''POST, OPTIONS''),
      (''Access-Control-Allow-Headers'', ''Content-Type''),
      (''Access-Control-Max-Age'', ''86400'')]"

definition handleCORS :: response where
  "handleCORS = \<lparr>status = 200, headers = getCORSHeaders, body = None\<rparr>"

definition createErrorResponse :: "string \<Rightarrow> nat \<Rightarrow> response" where
  "createErrorResponse msg st =
     \<lparr>status = st,
      headers = (''Content-Type'', ''application/json'') # getCORSHeaders,
      body = Some (JSON_stringify ''error'' msg)\<rparr>"

text \<open>\<^verbatim>\<open>validation.message || 'Validation failed'\<close>.\<close>

definition or_default :: "string option \<Rightarrow> string \<Rightarrow> string" where
  "or_default m d = (case m of None \<Rightarrow> d | Some s \<Rightarrow> if s = [] then d else s)"

definition request_json :: "request \<Rightarrow> js_error + json" where
  "request_json request =
     (case req_json request of None \<Rightarrow> Inl SyntaxError | Some b \<Rightarrow> Inr b)"

definition handleRequest ::
    "(fetch_request \<Rightarrow> fetch_outcome) \<Rightarrow> runtime \<Rightarrow> Env \<Rightarrow> request \<Rightarrow> response" where
  "handleRequest fetch rt env request =
    (if req_method request = ''OPTIONS'' then handleCORS
     else if req_method request \<noteq> ''POST'' then createErrorResponse ''Method not allowed'' 405
     else if req_pathname request \<noteq> ''/contact'' then
       createErrorResponse ''Endpoint not found'' 404
     else
       (case
          andThen (request_json request) (\<lambda>body.
          andThen (validateInput rt body) (\<lambda>validation.
          if \<not> isValid validation then
            Inr (createErrorResponse (or_default (message validation) ''Validation failed'') 400)
          else
            let emailResult = sendEmail fetch rt env body in
            if \<not> emailResult then
              Inr (createErrorResponse
                     ''Unable to send your inquiry. Please try again later.'' 500)
            else
              Inr \<lparr>status = 200,
                   headers = (''Content-Type'', ''application/json'') # getCORSHeaders,
                   body = Some (JSON_stringify ''success'' ''Your inquiry has been sent.'')\<rparr>))
        of
          Inl error \<Rightarrow>
            createErrorResponse ''Unable to send your inquiry. Please try again later.'' 500
        | Inr response \<Rightarrow> response))"

section \<open>The rules of the validator, in the order the specification lists them\<close>

text \<open>
  The specification names nine rules and fixes their order; the first rule that fails
  decides the answer. Each rule is given here with the condition that the code tests
  for it, to be compared with \<open>validateInput\<close> as a whole: the presence, email and
  length rules are total, while the mobile and the subject rule are the checks of the
  code, \<open>mobile_invalid\<close> and \<open>subject_too_long\<close>, which can raise. So a rule, on a
  body, fails, passes or raises, and a rule that raises is not a rule that fails.
\<close>

datatype rule =
    BodyIsObject
  | NamePresent
  | EmailPresent
  | MessagePresent
  | EmailFormat
  | MobileFormat
  | NameLength
  | SubjectLength
  | MessageLength

definition rule_order :: "rule list" where
  "rule_order =
     [BodyIsObject, NamePresent, EmailPresent, MessagePresent, EmailFormat, MobileFormat,
      NameLength, SubjectLength, MessageLength]"

fun rule_message :: "rule \<Rightarrow> string" where
  "rule_message BodyIsObject = ''Invalid request body''"
| "rule_message NamePresent = ''Name is required''"
| "rule_message EmailPresent = ''Email is required''"
| "rule_message MessagePresent = ''Message is required''"
| "rule_message EmailFormat = ''Please provide a valid email address''"
| "rule_message MobileFormat = ''Mobile number must be valid''"
| "rule_message NameLength = ''Name must be less than 100 characters''"
| "rule_message SubjectLength = ''Subject must be less than 200 characters''"
| "rule_message MessageLength = ''Message must be less than 1000 characters''"

fun is_object :: "json \<Rightarrow> bool" where
  "is_object (JObj kvs) = True"
| "is_object (JArr xs) = True"
| "is_object v = False"

text \<open>The member of a body under a key; \<open>None\<close> when there is none.\<close>

definition field :: "json \<Rightarrow> string \<Rightarrow> json option" where
  "field d k = (case get_prop (Some d) (lit k) of Inl e \<Rightarrow> None | Inr v \<Rightarrow> v)"

text \<open>A required field is missing, empty, only white space, or not a string.\<close>

definition blank :: "json option \<Rightarrow> bool" where
  "blank v = (case v of Some (JStr s) \<Rightarrow> list_all is_space s | _ \<Rightarrow> True)"

definition trimmed :: "json option \<Rightarrow> jsstring" where
  "trimmed v = (case v of Some (JStr s) \<Rightarrow> trim s | _ \<Rightarrow> [])"

fun rule_fails :: "runtime \<Rightarrow> json \<Rightarrow> rule \<Rightarrow> js_error + bool" where
  "rule_fails rt d BodyIsObject = Inr (\<not> is_object d)"
| "rule_fails rt d NamePresent = Inr (blank (field d ''name''))"
| "rule_fails rt d EmailPresent = Inr (blank (field d ''email''))"
| "rule_fails rt d MessagePresent = Inr (blank (field d ''message''))"
| "rule_fails rt d EmailFormat = Inr (\<not> regex_test emailRegex (trimmed (field d ''email'')))"
| "rule_fails rt d MobileFormat = mobile_invalid rt (field d ''mobile'')"
| "rule_fails rt d NameLength = Inr (length (trimmed (field d ''name'')) > 100)"
| "rule_fails rt d SubjectLength = subject_too_long rt (field d ''subject'')"
| "rule_fails rt d MessageLength = Inr (length (trimmed (field d ''message'')) > 1000)"

fun first_failing :: "runtime \<Rightarrow> json \<Rightarrow> rule list \<Rightarrow> js_error + rule option" where
  "first_failing rt d [] = Inr None"
| "first_failing rt d (r # rs) =
     (case rule_fails rt d r of
        Inl e \<Rightarrow> Inl e
      | Inr True \<Rightarrow> Inr (Some r)
      | Inr False \<Rightarrow> first_failing rt d rs)"

definition verdict :: "js_error + rule option \<Rightarrow> js_error + ValidationResult" where
  "verdict x =
     (case x of
        Inl e \<Rightarrow> Inl e
      | Inr None \<Rightarrow> Inr \<lparr>isValid = True, message = None\<rparr>
      | Inr (Some r) \<Rightarrow> Inr \<lparr>isValid = False, message = Some (rule_message r)\<rparr>)"

section \<open>Sample values\<close>

text \<open>A runtime, a deployment and bodies on which the results below are evaluated.\<close>

definition sample_runtime :: runtime where
  "sample_runtime = \<lparr>number_to_string = (\<lambda>n. lit ''NaN''), string_to_number = (\<lambda>s. None)\<rparr>"

definition sample_env :: Env where
  "sample_env =
     \<lparr>MAILTRAP_API_TOKEN = Some (lit ''token''),
      FROM_EMAIL = Some (lit ''from@example.com''),
      TO_EMAIL = Some (lit ''to@example.com''),
      MAILTRAP_API_URL = Some (lit ''https://send.api.mailtrap.io/api/send'')\<rparr>"

text \<open>The rules that come before a given rule in the order.\<close>

definition rules_before :: "rule \<Rightarrow> rule list" where
  "rules_before r = takeWhile (\<lambda>x. x \<noteq> r) rule_order"

text \<open>A string of digits, 7 to 15 of them.\<close>

definition mobile_ok :: "jsstring \<Rightarrow> bool" where
  "mobile_ok t \<longleftrightarrow> t \<noteq> [] \<and> list_all is_digit t \<and> 7 \<le> length t \<and> length t \<le> 15"

text \<open>
  A body with the three required members as strings, after any other members (so that
  the three are the ones read).
\<close>

definition contact ::
    "jsstring \<Rightarrow> jsstring \<Rightarrow> jsstring \<Rightarrow> (jsstring \<times> json) list \<Rightarrow> json" where
  "contact n e m others =
     JObj (others @
       [(lit ''name'', JStr n), (lit ''email'', JStr e), (lit ''message'', JStr m)])"

text \<open>The example of the specification: Jo, jo@x.com, Hi.\<close>

definition sample_body :: json where
  "sample_body = contact (lit ''Jo'') (lit ''jo@x.com'') (lit ''Hi'') []"

definition post_contact :: "json \<Rightarrow> request" where
  "post_contact d = \<lparr>req_method = ''POST'', req_pathname = ''/contact'', req_json = Some d\<rparr>"

text \<open>The example body with a mobile that has a space before its seven digits.\<close>

definition spaced_mobile_body :: json where
  "spaced_mobile_body =
     contact (lit ''Jo'') (lit ''jo@x.com'') (lit ''Hi'')
       [(lit ''mobile'', JStr (lit '' 1234567''))]"

text \<open>The example body with a mobile that is the JSON number 1234567.\<close>

definition number_mobile_body :: json where
  "number_mobile_body =
     contact (lit ''Jo'') (lit ''jo@x.com'') (lit ''Hi'')
       [(lit ''mobile'', JNum (Fin 1234567))]"

text \<open>The example body with a mobile of five digits.\<close>

definition short_mobile_body :: json where
  "short_mobile_body =
     contact (lit ''Jo'') (lit ''jo@x.com'') (lit ''Hi'')
       [(lit ''mobile'', JStr (lit ''12345''))]"


text \<open>The example body with an email of three spaces.\<close>

definition space_email_body :: json where
  "space_email_body = contact (lit ''Jo'') (lit ''   '') (lit ''Hi'') []"

text \<open>The example body with an email that has no at sign.\<close>

definition bad_email_body :: json where
  "bad_email_body = contact (lit ''Jo'') (lit ''jo'') (lit ''Hi'') []"

text \<open>The text of a member that is a string; empty for any other value.\<close>

definition string_value :: "json option \<Rightarrow> jsstring" where
  "string_value v = (case v of Some (JStr s) \<Rightarrow> s | _ \<Rightarrow> [])"

text \<open>The example body with a name of 100 letters followed by a space.\<close>

definition padded_name_body :: json where
  "padded_name_body =
     contact (replicate 100 0x61 @ [0x20]) (lit ''jo@x.com'') (lit ''Hi'') []"

text \<open>The example body with a name of 101 letters.\<close>

definition long_name_body :: json where
  "long_name_body = contact (replicate 101 0x61) (lit ''jo@x.com'') (lit ''Hi'') []"

text \<open>A body at the three limits: 100, 200 and 1000 letters.\<close>

definition limit_body :: json where
  "limit_body =
     contact (replicate 100 0x61) (lit ''jo@x.com'') (replicate 1000 0x61)
       [(lit ''subject'', JStr (replicate 200 0x61))]"

section \<open>What escaping gives\<close>

text \<open>The replacement of one character by \<open>escapeHtml\<close>, read off its five calls.\<close>

definition entity :: "jschar \<Rightarrow> jsstring" where
  "entity c =
     (if c = 0x26 then lit ''&amp;''
      else if c = 0x3C then lit ''&lt;''
      else if c = 0x3E then lit ''&gt;''
      else if c = 0x22 then lit ''&quot;''
      else if c = 0x27 then lit ''&#039;''
      else [c])"

text \<open>The HTML text handed to the email service, when the request gets that far.\<close>

definition rendered_html :: "js_error + prepared \<Rightarrow> jsstring option" where
  "rendered_html r =
     (case r of Inr (Ready q) \<Rightarrow> Some (html_part (payload q)) | _ \<Rightarrow> None)"

text \<open>The example body with markup in its name.\<close>

definition markup_body :: json where
  "markup_body = contact (lit ''<b>Jo</b>'') (lit ''jo@x.com'') (lit ''Hi'') []"



section \<open>Facts about strings and patterns\<close>

lemma trim_eq_Nil: "trim s = [] \<longleftrightarrow> (\<forall>c\<in>set s. is_space c)"
proof -
  have "dropWhile is_space s \<noteq> [] \<Longrightarrow> \<not> is_space (hd (dropWhile is_space s))"
    by (rule hd_dropWhile)
  then have "(\<forall>c\<in>set (dropWhile is_space s). is_space c) \<longleftrightarrow> dropWhile is_space s = []"
    by (cases "dropWhile is_space s") (auto dest: set_dropWhileD)
  then show ?thesis
    by (simp add: trim_def dropWhile_eq_Nil_conv)
qed

lemma trim_id: "s \<noteq> [] \<Longrightarrow> \<not> is_space (hd s) \<Longrightarrow> \<not> is_space (last s) \<Longrightarrow> trim s = s"
proof -
  assume a: "s \<noteq> []" "\<not> is_space (hd s)" "\<not> is_space (last s)"
  then have 1: "dropWhile is_space s = s" by (cases s) auto
  from a have "dropWhile is_space (rev s) = rev s" by (cases "rev s") (auto simp: hd_rev)
  with 1 show ?thesis by (simp add: trim_def)
qed

lemma star_all: "star {[c] | c. p c} = {s. \<forall>c\<in>set s. p c}"
proof (rule set_eqI, rule iffI)
  fix s assume "s \<in> star {[c] | c. p c}"
  then show "s \<in> {s. \<forall>c\<in>set s. p c}" by (induction rule: star.induct) auto
next
  fix s assume "s \<in> {s. \<forall>c\<in>set s. p c}"
  then have "\<forall>c\<in>set s. p c" by simp
  then show "s \<in> star {[c] | c. p c}"
  proof (induction s)
    case Nil show ?case by (rule star_nil)
  next
    case (Cons a s)
    then have "[a] \<in> {[c] | c. p c}" "s \<in> star {[c] | c. p c}" by auto
    then have "[a] @ s \<in> star {[c] | c. p c}" by (rule star_app)
    then show ?case by simp
  qed
qed

lemma lang_Cat: "s \<in> lang (Cat r1 r2) \<longleftrightarrow> (\<exists>u v. s = u @ v \<and> u \<in> lang r1 \<and> v \<in> lang r2)"
  by auto

lemma lang_Chr: "s \<in> lang (Chr c) \<longleftrightarrow> s = [c]"
  by (auto simp: Chr_def)

lemma lang_Plus_Cls: "s \<in> lang (Plus (Cls p)) \<longleftrightarrow> s \<noteq> [] \<and> (\<forall>c\<in>set s. p c)"
proof (cases s)
  case Nil
  then show ?thesis by (simp add: Plus_def)
next
  case (Cons a t)
  have "s \<in> lang (Plus (Cls p)) \<longleftrightarrow> (\<exists>u v. a # t = u @ v \<and> (\<exists>c. u = [c] \<and> p c) \<and> (\<forall>x\<in>set v. p x))"
    by (simp add: Plus_def star_all Cons)
  also have "\<dots> \<longleftrightarrow> p a \<and> (\<forall>x\<in>set t. p x)"
  proof
    assume "\<exists>u v. a # t = u @ v \<and> (\<exists>c. u = [c] \<and> p c) \<and> (\<forall>x\<in>set v. p x)"
    then show "p a \<and> (\<forall>x\<in>set t. p x)" by auto
  next
    assume "p a \<and> (\<forall>x\<in>set t. p x)"
    then have "a # t = [a] @ t \<and> (\<exists>c. [a] = [c] \<and> p c) \<and> (\<forall>x\<in>set t. p x)" by simp
    then show "\<exists>u v. a # t = u @ v \<and> (\<exists>c. u = [c] \<and> p c) \<and> (\<forall>x\<in>set v. p x)" by blast
  qed
  finally show ?thesis by (simp add: Cons)
qed

lemma nullable_iff: "nullable r \<longleftrightarrow> [] \<in> lang r"
  by (induction r) (auto intro: star_nil)

lemma star_cons: "c # w \<in> star L \<longleftrightarrow> (\<exists>u v. w = u @ v \<and> c # u \<in> L \<and> v \<in> star L)"
proof
  assume "c # w \<in> star L"
  then show "\<exists>u v. w = u @ v \<and> c # u \<in> L \<and> v \<in> star L"
  proof (induction "c # w" rule: star.induct)
    case (star_app u v)
    show ?case
    proof (cases u)
      case Nil
      with star_app show ?thesis by simp
    next
      case (Cons a u')
      with star_app(1,2,4) show ?thesis by auto
    qed
  qed
next
  assume "\<exists>u v. w = u @ v \<and> c # u \<in> L \<and> v \<in> star L"
  then obtain u v where "w = u @ v" "c # u \<in> L" "v \<in> star L" by blast
  then have "(c # u) @ v \<in> star L" by (intro star_app)
  with \<open>w = u @ v\<close> show "c # w \<in> star L" by simp
qed

lemma deriv_lang: "w \<in> lang (deriv c r) \<longleftrightarrow> c # w \<in> lang r"
proof (induction r arbitrary: w)
  case (Cat r s)
  have "c # w \<in> lang (Cat r s) \<longleftrightarrow>
        (\<exists>u v. w = u @ v \<and> c # u \<in> lang r \<and> v \<in> lang s) \<or> ([] \<in> lang r \<and> c # w \<in> lang s)"
    by (auto simp: Cons_eq_append_conv) 
  with Cat show ?case by (auto simp: nullable_iff)
next
  case (Rep r)
  then show ?case by (auto simp: star_cons)
qed auto

lemma regex_test_iff: "regex_test r s \<longleftrightarrow> s \<in> lang r"
  unfolding regex_test_def
  by (induction s arbitrary: r) (simp_all add: nullable_iff deriv_lang)

lemma digits_test: "regex_test digitsRegex s \<longleftrightarrow> s \<noteq> [] \<and> (\<forall>c\<in>set s. is_digit c)"
  by (simp add: regex_test_iff digitsRegex_def lang_Plus_Cls)

lemma digit_not_space: "is_digit c \<Longrightarrow> \<not> is_space c"
  unfolding is_digit_def is_space_def
  by (auto simp: word_le_nat_alt)

section \<open>The validator follows the rule list\<close>

lemma field_missing_blank: "field_missing v = Inr (blank v)"
proof (cases v)
  case None
  then show ?thesis by (simp add: field_missing_def blank_def)
next
  case (Some x)
  show ?thesis
  proof (cases x)
    case (JNum n)
    with Some show ?thesis by (cases n) (simp_all add: field_missing_def blank_def)
  next
    case (JStr s)
    with Some show ?thesis
      by (simp add: field_missing_def blank_def andThen_def trim_eq_Nil list_all_iff)
  qed (simp_all add: Some field_missing_def blank_def)
qed

lemma get_prop_field: "is_object d \<Longrightarrow> get_prop (Some d) (lit k) = Inr (field d k)"
  by (cases d) (simp_all add: field_def)

lemma not_object: "\<not> truthy (Some d) \<or> typeof (Some d) \<noteq> ''object'' \<longleftrightarrow> \<not> is_object d"
proof (cases d)
  case (JNum n)
  then show ?thesis by (cases n) simp_all
qed simp_all

lemma trim_js_trimmed: "\<not> blank v \<Longrightarrow> trim_js v = Inr (trimmed v)"
  by (cases v rule: trim_js.cases) (simp_all add: blank_def trimmed_def)

lemma validateInput_rules: "validateInput rt d = verdict (first_failing rt d rule_order)"
proof (cases "is_object d")
  case False
  then show ?thesis
    unfolding validateInput_def Let_def not_object
    by (simp add: rule_order_def verdict_def)
next
  case True
  then show ?thesis
    unfolding validateInput_def Let_def not_object
    by (simp add: get_prop_field field_missing_blank andThen_def rule_order_def verdict_def
          trim_js_trimmed split: sum.splits bool.splits)
qed

section \<open>Responses of the handler\<close>

lemma text_method_not_allowed:
  \<open>JSON_stringify ''error'' ''Method not allowed'' =
     ''{"status":"error","message":"Method not allowed"}''\<close>
  by (simp add: JSON_stringify_def quote_def quote_char_def)

lemma text_unable:
  \<open>JSON_stringify ''error'' ''Unable to send your inquiry. Please try again later.'' =
     ''{"status":"error","message":"Unable to send your inquiry. Please try again later."}''\<close>
  by (simp add: JSON_stringify_def quote_def quote_char_def)

lemma text_success:
  \<open>JSON_stringify ''success'' ''Your inquiry has been sent.'' =
     ''{"status":"success","message":"Your inquiry has been sent."}''\<close>
  by (simp add: JSON_stringify_def quote_def quote_char_def)

lemma handle_options: "req_method rq = ''OPTIONS'' \<Longrightarrow> handleRequest fetch rt env rq = handleCORS"
  by (simp add: handleRequest_def)

lemma handle_other_method:
  "req_method rq \<noteq> ''OPTIONS'' \<Longrightarrow> req_method rq \<noteq> ''POST'' \<Longrightarrow>
   handleRequest fetch rt env rq = createErrorResponse ''Method not allowed'' 405"
  by (simp add: handleRequest_def)

lemma handle_other_path:
  "req_method rq = ''POST'' \<Longrightarrow> req_pathname rq \<noteq> ''/contact'' \<Longrightarrow>
   handleRequest fetch rt env rq = createErrorResponse ''Endpoint not found'' 404"
  by (simp add: handleRequest_def)

lemma handle_unparseable:
  "req_method rq = ''POST'' \<Longrightarrow> req_pathname rq = ''/contact'' \<Longrightarrow> req_json rq = None \<Longrightarrow>
   handleRequest fetch rt env rq =
     createErrorResponse ''Unable to send your inquiry. Please try again later.'' 500"
  by (simp add: handleRequest_def request_json_def andThen_def)

lemma handle_contact:
  "req_method rq = ''POST'' \<Longrightarrow> req_pathname rq = ''/contact'' \<Longrightarrow> req_json rq = Some d \<Longrightarrow>
   handleRequest fetch rt env rq =
     (case validateInput rt d of
        Inl e \<Rightarrow> createErrorResponse ''Unable to send your inquiry. Please try again later.'' 500
      | Inr v \<Rightarrow>
          if \<not> isValid v then
            createErrorResponse (or_default (message v) ''Validation failed'') 400
          else if sendEmail fetch rt env d then
            \<lparr>status = 200,
             headers = (''Content-Type'', ''application/json'') # getCORSHeaders,
             body = Some (JSON_stringify ''success'' ''Your inquiry has been sent.'')\<rparr>
          else createErrorResponse ''Unable to send your inquiry. Please try again later.'' 500)"
  by (simp add: handleRequest_def request_json_def andThen_def Let_def split: sum.splits)

lemma rule_message_nonempty: "rule_message r \<noteq> []"
  by (cases r) simp_all

lemma handle_rule_failure:
  assumes "req_method rq = ''POST''" "req_pathname rq = ''/contact''" "req_json rq = Some d"
    and "first_failing rt d rule_order = Inr (Some r)"
  shows "handleRequest fetch rt env rq = createErrorResponse (rule_message r) 400"
  using assms rule_message_nonempty [of r]
  by (simp add: handle_contact validateInput_rules verdict_def or_default_def)

lemma text_not_found:
  \<open>JSON_stringify ''error'' ''Endpoint not found'' =
     ''{"status":"error","message":"Endpoint not found"}''\<close>
  by (simp add: JSON_stringify_def quote_def quote_char_def)

text \<open>
  C8. A request with method OPTIONS, whatever its path, is answered 200 with the CORS
  headers and no body; a request whose method is neither POST nor OPTIONS is answered
  405 with the text "Method not allowed"; a POST to a path other than /contact is
  answered 404 with the text "Endpoint not found".
\<close>

theorem routing_responses:
  \<open>(req_method rq = ''OPTIONS'' \<longrightarrow>
      handleRequest fetch rt env rq =
        \<lparr>status = 200,
         headers =
           [(''Access-Control-Allow-Origin'', ''*''),
            (''Access-Control-Allow-Methods'', ''POST, OPTIONS''),
            (''Access-Control-Allow-Headers'', ''Content-Type''),
            (''Access-Control-Max-Age'', ''86400'')],
         body = None\<rparr>) \<and>
   (req_method rq \<noteq> ''POST'' \<and> req_method rq \<noteq> ''OPTIONS'' \<longrightarrow>
      status (handleRequest fetch rt env rq) = 405 \<and>
      body (handleRequest fetch rt env rq) =
        Some ''{"status":"error","message":"Method not allowed"}'') \<and>
   (req_method rq = ''POST'' \<and> req_pathname rq \<noteq> ''/contact'' \<longrightarrow>
      status (handleRequest fetch rt env rq) = 404 \<and>
      body (handleRequest fetch rt env rq) =
        Some ''{"status":"error","message":"Endpoint not found"}'')\<close>
proof (intro conjI impI)
  assume "req_method rq = ''OPTIONS''"
  then show "handleRequest fetch rt env rq =
        \<lparr>status = 200,
         headers =
           [(''Access-Control-Allow-Origin'', ''*''),
            (''Access-Control-Allow-Methods'', ''POST, OPTIONS''),
            (''Access-Control-Allow-Headers'', ''Content-Type''),
            (''Access-Control-Max-Age'', ''86400'')],
         body = None\<rparr>"
    by (simp add: handle_options handleCORS_def getCORSHeaders_def)
next
  assume a: "req_method rq \<noteq> ''POST'' \<and> req_method rq \<noteq> ''OPTIONS''"
  then show "status (handleRequest fetch rt env rq) = 405"
    by (simp add: handle_other_method createErrorResponse_def)
  from a show \<open>body (handleRequest fetch rt env rq) =
        Some ''{"status":"error","message":"Method not allowed"}''\<close>
    by (simp add: handle_other_method createErrorResponse_def text_method_not_allowed)
next
  assume a: "req_method rq = ''POST'' \<and> req_pathname rq \<noteq> ''/contact''"
  then show "status (handleRequest fetch rt env rq) = 404"
    by (simp add: handle_other_path createErrorResponse_def)
  from a show \<open>body (handleRequest fetch rt env rq) =
        Some ''{"status":"error","message":"Endpoint not found"}''\<close>
    by (simp add: handle_other_path createErrorResponse_def text_not_found)
qed

theorem routing_responses_witness:
  \<open>handleRequest (\<lambda>q. Rejected) sample_runtime sample_env
      \<lparr>req_method = ''OPTIONS'', req_pathname = ''/anywhere'', req_json = None\<rparr> =
      \<lparr>status = 200,
       headers =
         [(''Access-Control-Allow-Origin'', ''*''),
          (''Access-Control-Allow-Methods'', ''POST, OPTIONS''),
          (''Access-Control-Allow-Headers'', ''Content-Type''),
          (''Access-Control-Max-Age'', ''86400'')],
       body = None\<rparr> \<and>
   status (handleRequest (\<lambda>q. Rejected) sample_runtime sample_env
      \<lparr>req_method = ''GET'', req_pathname = ''/contact'', req_json = None\<rparr>) = 405 \<and>
   body (handleRequest (\<lambda>q. Rejected) sample_runtime sample_env
      \<lparr>req_method = ''GET'', req_pathname = ''/contact'', req_json = None\<rparr>) =
      Some ''{"status":"error","message":"Method not allowed"}'' \<and>
   status (handleRequest (\<lambda>q. Rejected) sample_runtime sample_env
      \<lparr>req_method = ''POST'', req_pathname = ''/'', req_json = None\<rparr>) = 404 \<and>
   body (handleRequest (\<lambda>q. Rejected) sample_runtime sample_env
      \<lparr>req_method = ''POST'', req_pathname = ''/'', req_json = None\<rparr>) =
      Some ''{"status":"error","message":"Endpoint not found"}''\<close>
  using
    routing_responses [of "\<lparr>req_method = ''OPTIONS'', req_pathname = ''/anywhere'', req_json = None\<rparr>"
      "\<lambda>q. Rejected" sample_runtime sample_env]
    routing_responses [of "\<lparr>req_method = ''GET'', req_pathname = ''/contact'', req_json = None\<rparr>"
      "\<lambda>q. Rejected" sample_runtime sample_env]
    routing_responses [of "\<lparr>req_method = ''POST'', req_pathname = ''/'', req_json = None\<rparr>"
      "\<lambda>q. Rejected" sample_runtime sample_env]
  by simp

lemma headers_of_response:
  "headers (handleRequest fetch rt env rq) =
     (if req_method rq = ''OPTIONS'' then getCORSHeaders
      else (''Content-Type'', ''application/json'') # getCORSHeaders)"
proof (cases "req_method rq = ''OPTIONS''")
  case True
  then show ?thesis by (simp add: handle_options handleCORS_def)
next
  case no_opt: False
  show ?thesis
  proof (cases "req_method rq = ''POST''")
    case False
    with no_opt show ?thesis by (simp add: handle_other_method createErrorResponse_def)
  next
    case post: True
    show ?thesis
    proof (cases "req_pathname rq = ''/contact''")
      case False
      with post no_opt show ?thesis by (simp add: handle_other_path createErrorResponse_def)
    next
      case path: True
      show ?thesis
      proof (cases "req_json rq")
        case None
        with post path no_opt show ?thesis
          by (simp add: handle_unparseable createErrorResponse_def)
      next
        case (Some d)
        with post path no_opt show ?thesis
          by (simp add: handle_contact createErrorResponse_def split: sum.splits)
      qed
    qed
  qed
qed

text \<open>
  C9. Whatever the request and whatever happens while it is handled, the response
  carries the four CORS headers with their fixed values, and unless the request is
  the OPTIONS preflight it also carries Content-Type: application/json.
\<close>

theorem cors_headers_on_every_response:
  "map_of (headers (handleRequest fetch rt env rq)) ''Access-Control-Allow-Origin'' = Some ''*'' \<and>
   map_of (headers (handleRequest fetch rt env rq)) ''Access-Control-Allow-Methods'' =
     Some ''POST, OPTIONS'' \<and>
   map_of (headers (handleRequest fetch rt env rq)) ''Access-Control-Allow-Headers'' =
     Some ''Content-Type'' \<and>
   map_of (headers (handleRequest fetch rt env rq)) ''Access-Control-Max-Age'' = Some ''86400'' \<and>
   (req_method rq \<noteq> ''OPTIONS'' \<longrightarrow>
      map_of (headers (handleRequest fetch rt env rq)) ''Content-Type'' = Some ''application/json'')"
  by (simp add: headers_of_response getCORSHeaders_def)

theorem cors_headers_on_every_response_witness:
  "map_of (headers (handleRequest (\<lambda>q. Rejected) sample_runtime sample_env
      \<lparr>req_method = ''DELETE'', req_pathname = ''/contact'', req_json = None\<rparr>))
      ''Access-Control-Allow-Origin'' = Some ''*'' \<and>
   map_of (headers (handleRequest (\<lambda>q. Rejected) sample_runtime sample_env
      \<lparr>req_method = ''DELETE'', req_pathname = ''/contact'', req_json = None\<rparr>))
      ''Content-Type'' = Some ''application/json''"
  using cors_headers_on_every_response
    [of "\<lambda>q. Rejected" sample_runtime sample_env
      "\<lparr>req_method = ''DELETE'', req_pathname = ''/contact'', req_json = None\<rparr>"]
  by simp

text \<open>
  C3, as stated: a POST to /contact whose body is not JSON would be answered 400. It
  is answered 500: the exception of \<open>request.json()\<close> is caught by the single
  \<open>catch\<close> of the handler, which gives the generic failure.
\<close>

theorem unparseable_body_counterexample:
  "status (handleRequest (\<lambda>q. Responded 200) sample_runtime sample_env
      \<lparr>req_method = ''POST'', req_pathname = ''/contact'', req_json = None\<rparr>) \<noteq> 400"
  by (simp add: handle_unparseable createErrorResponse_def)

text \<open>
  C3, amended: a POST to /contact whose body is not JSON is answered 500 with the
  generic failure text.
\<close>

theorem unparseable_body_is_500:
  assumes "req_method rq = ''POST''" and "req_pathname rq = ''/contact''" and "req_json rq = None"
  shows \<open>status (handleRequest fetch rt env rq) = 500 \<and>
    body (handleRequest fetch rt env rq) =
      Some ''{"status":"error","message":"Unable to send your inquiry. Please try again later."}''\<close>
  using assms by (simp add: handle_unparseable createErrorResponse_def text_unable)

theorem unparseable_body_is_500_witness:
  \<open>status (handleRequest (\<lambda>q. Responded 200) sample_runtime sample_env
      \<lparr>req_method = ''POST'', req_pathname = ''/contact'', req_json = None\<rparr>) = 500 \<and>
    body (handleRequest (\<lambda>q. Responded 200) sample_runtime sample_env
      \<lparr>req_method = ''POST'', req_pathname = ''/contact'', req_json = None\<rparr>) =
      Some ''{"status":"error","message":"Unable to send your inquiry. Please try again later."}''\<close>
  using unparseable_body_is_500
    [of "\<lparr>req_method = ''POST'', req_pathname = ''/contact'', req_json = None\<rparr>"
      "\<lambda>q. Responded 200" sample_runtime sample_env]
  by simp

section \<open>Decimal digits and the mobile rule\<close>

declare dec.simps [simp del]

lemma digit_char: "d < 10 \<Longrightarrow> is_digit (of_nat (48 + d))"
  by (simp add: is_digit_def word_le_nat_alt unat_word_ariths unat_of_nat)

lemma digit_char_sum: "d < 10 \<Longrightarrow> is_digit (48 + of_nat d)"
  using digit_char [of d] by simp

lemma dec_digits: "list_all is_digit (dec n)"
proof (induction n rule: dec.induct)
  case (1 n)
  show ?case
  proof (cases "n < 10")
    case True
    then show ?thesis by (subst dec.simps) (simp add: digit_char_sum)
  next
    case False
    with 1 show ?thesis by (subst dec.simps) (simp add: digit_char_sum)
  qed
qed

lemma dec_nonempty: "dec n \<noteq> []"
  by (subst dec.simps) simp

lemma dec_length_le: "0 < k \<Longrightarrow> n < 10 ^ k \<Longrightarrow> length (dec n) \<le> k"
proof (induction n arbitrary: k rule: dec.induct)
  case (1 n)
  show ?case
  proof (cases "n < 10")
    case True
    with 1(2) show ?thesis by (subst dec.simps) simp
  next
    case False
    with 1(2,3) have "1 < k" by (cases "k = 1") auto
    then obtain j where k: "k = Suc j" and j: "0 < j" by (cases k) auto
    from 1(3) k have "n div 10 < 10 ^ j" by (simp add: less_mult_imp_div_less mult.commute)
    with 1(1) False j have "length (dec (n div 10)) \<le> j" by simp
    with False k show ?thesis by (subst dec.simps) simp
  qed
qed

lemma dec_length_gt: "10 ^ k \<le> n \<Longrightarrow> k < length (dec n)"
proof (induction n arbitrary: k rule: dec.induct)
  case (1 n)
  show ?case
  proof (cases k)
    case 0
    then show ?thesis using dec_nonempty [of n] by (cases "dec n") auto
  next
    case (Suc j)
    have "(10::nat) * 1 \<le> 10 * 10 ^ j" by (intro mult_le_mono) simp_all
    moreover from 1(2) Suc have "10 * 10 ^ j \<le> n" by simp
    ultimately have big: "\<not> n < 10" by linarith
    from 1(2) Suc have "10 ^ j \<le> n div 10" by (simp add: less_eq_div_iff_mult_less_eq mult.commute)
    with 1(1) big have "j < length (dec (n div 10))" by simp
    with big Suc show ?thesis by (subst dec.simps) simp
  qed
qed

lemma trim_no_space: "s \<noteq> [] \<Longrightarrow> \<forall>c\<in>set s. \<not> is_space c \<Longrightarrow> trim s = s"
  by (rule trim_id) simp_all

lemma trim_dec: "trim (dec n) = dec n"
  using dec_digits [of n] dec_nonempty [of n]
  by (intro trim_no_space) (auto simp: list_all_iff digit_not_space)

lemma safe_integer_of_nat: "n < 10 ^ 15 \<Longrightarrow> safe_integer (of_nat n)"
proof -
  assume "n < 10 ^ 15"
  then have "n < 2 ^ 53" by simp
  then have "(of_nat n :: rat) < of_nat (2 ^ 53)" by (simp only: of_nat_less_iff)
  then show ?thesis by (simp add: safe_integer_def)
qed

lemma number_string_of_nat: "n < 10 ^ 15 \<Longrightarrow> number_string rt (Fin (of_nat n)) = dec n"
  by (simp add: safe_integer_of_nat)

lemma mobile_ok_dec: "10 ^ 6 \<le> n \<Longrightarrow> n < 10 ^ 15 \<Longrightarrow> mobile_ok (dec n)"
  using dec_length_gt [of 6 n] dec_length_le [of 15 n]
  by (simp add: mobile_ok_def dec_digits dec_nonempty)

lemma mobile_invalid_present:
  "v \<noteq> JNull \<Longrightarrow> v \<noteq> JStr [] \<Longrightarrow>
   mobile_invalid rt (Some v) = andThen (to_string rt v) (\<lambda>s. Inr (\<not> mobile_ok (trim s)))"
  by (auto simp: mobile_invalid_def String_def mobile_ok_def digits_test list_all_iff Let_def
        andThen_def split: sum.splits)

lemma mobile_invalid_skipped:
  "v = None \<or> v = Some JNull \<or> v = Some (JStr []) \<Longrightarrow> mobile_invalid rt v = Inr False"
  by (auto simp: mobile_invalid_def)

lemma mobile_invalid_number:
  assumes "10 ^ 6 \<le> n" and "n < 10 ^ 15"
  shows "mobile_invalid rt (Some (JNum (Fin (of_nat n)))) = Inr False"
proof -
  have "to_string rt (JNum (Fin (of_nat n))) = Inr (dec n)"
    using assms(2) by (simp only: to_string.simps number_string_of_nat)
  moreover have "mobile_ok (trim (dec n))"
    using assms by (simp only: trim_dec mobile_ok_dec)
  ultimately show ?thesis
    by (simp add: mobile_invalid_present andThen_def)
qed

lemma email_lang:
  "s \<in> lang emailRegex \<longleftrightarrow>
     (\<exists>a b c. s = a @ [0x40] @ b @ [0x2E] @ c \<and> a \<noteq> [] \<and> b \<noteq> [] \<and> c \<noteq> [] \<and>
        (\<forall>x\<in>set a \<union> set b \<union> set c. not_space_at x))"
  unfolding emailRegex_def lang_Cat lang_Chr lang_Plus_Cls
  by (simp add: ball_Un) blast

lemma first_failing_append:
  "first_failing rt d (xs @ ys) =
     (case first_failing rt d xs of Inr None \<Rightarrow> first_failing rt d ys | other \<Rightarrow> other)"
  by (induction xs) (auto split: sum.splits bool.splits)

lemma rules_before_mobile:
  "rules_before MobileFormat = [BodyIsObject, NamePresent, EmailPresent, MessagePresent, EmailFormat]"
  by (simp add: rules_before_def rule_order_def)

lemma rules_before_name_length:
  "rules_before NameLength =
     [BodyIsObject, NamePresent, EmailPresent, MessagePresent, EmailFormat, MobileFormat]"
  by (simp add: rules_before_def rule_order_def)

lemma rules_before_email_format:
  "rules_before EmailFormat = [BodyIsObject, NamePresent, EmailPresent, MessagePresent]"
  by (simp add: rules_before_def rule_order_def)

lemma rule_order_from_mobile:
  "rule_order = rules_before MobileFormat @ [MobileFormat, NameLength, SubjectLength, MessageLength]"
  by (simp add: rules_before_mobile rule_order_def)

lemma rule_order_from_name_length:
  "rule_order = rules_before NameLength @ [NameLength, SubjectLength, MessageLength]"
  by (simp add: rules_before_name_length rule_order_def)

lemma rule_order_from_email_format:
  "rule_order = rules_before EmailFormat @
     [EmailFormat, MobileFormat, NameLength, SubjectLength, MessageLength]"
  by (simp add: rules_before_email_format rule_order_def)

lemma validateInput_at_mobile:
  assumes "first_failing rt d (rules_before MobileFormat) = Inr None"
    and "field d ''mobile'' = Some v" and "v \<noteq> JNull" and "v \<noteq> JStr []"
  shows "validateInput rt d =
     (case to_string rt v of
        Inl e \<Rightarrow> Inl e
      | Inr s \<Rightarrow>
          if \<not> mobile_ok (trim s)
          then Inr \<lparr>isValid = False, message = Some ''Mobile number must be valid''\<rparr>
          else verdict (first_failing rt d [NameLength, SubjectLength, MessageLength]))"
proof -
  have "first_failing rt d rule_order =
      first_failing rt d [MobileFormat, NameLength, SubjectLength, MessageLength]"
    by (subst rule_order_from_mobile) (simp only: first_failing_append assms(1) sum.case option.case)
  then show ?thesis
    using assms(2-4)
    by (simp add: validateInput_rules mobile_invalid_present andThen_def verdict_def
          split: sum.splits)
qed

lemma validateInput_mobile_skipped:
  assumes "first_failing rt d (rules_before MobileFormat) = Inr None"
    and "field d ''mobile'' = None \<or> field d ''mobile'' = Some JNull \<or>
         field d ''mobile'' = Some (JStr [])"
  shows "validateInput rt d = verdict (first_failing rt d [NameLength, SubjectLength, MessageLength])"
proof -
  have "first_failing rt d rule_order =
      first_failing rt d [MobileFormat, NameLength, SubjectLength, MessageLength]"
    by (subst rule_order_from_mobile) (simp only: first_failing_append assms(1) sum.case option.case)
  then show ?thesis
    using mobile_invalid_skipped [OF assms(2), of rt]
    by (simp add: validateInput_rules)
qed

subsection \<open>Evaluation on a body with the three required members\<close>

lemma lit_keys:
  "lit ''name'' \<noteq> lit ''email''" "lit ''name'' \<noteq> lit ''message''" "lit ''email'' \<noteq> lit ''message''"
  "lit ''mobile'' \<noteq> lit ''name''" "lit ''mobile'' \<noteq> lit ''email''" "lit ''mobile'' \<noteq> lit ''message''"
  "lit ''subject'' \<noteq> lit ''name''" "lit ''subject'' \<noteq> lit ''email''"
  "lit ''subject'' \<noteq> lit ''message''" "lit ''subject'' \<noteq> lit ''mobile''"
  by (simp_all add: lit_def)

lemma contact_fields:
  "field (contact n e m others) ''name'' = Some (JStr n)"
  "field (contact n e m others) ''email'' = Some (JStr e)"
  "field (contact n e m others) ''message'' = Some (JStr m)"
  "field (contact n e m others) ''mobile'' = map_of (rev others) (lit ''mobile'')"
  "field (contact n e m others) ''subject'' = map_of (rev others) (lit ''subject'')"
  "is_object (contact n e m others)"
  using lit_keys by (simp_all add: field_def contact_def)

lemma blank_string: "blank (Some (JStr s)) \<longleftrightarrow> trim s = []"
  by (simp add: blank_def trim_eq_Nil list_all_iff)

lemma contact_required_rules:
  "first_failing rt (contact n e m others) (rules_before EmailFormat) =
     Inr (if trim n = [] then Some NamePresent
          else if trim e = [] then Some EmailPresent
          else if trim m = [] then Some MessagePresent
          else None)"
  by (simp add: rules_before_email_format contact_fields blank_string)

lemma contact_rules_before_mobile:
  "trim n \<noteq> [] \<Longrightarrow> trim e \<noteq> [] \<Longrightarrow> trim m \<noteq> [] \<Longrightarrow> regex_test emailRegex (trim e) \<Longrightarrow>
   first_failing rt (contact n e m others) (rules_before MobileFormat) = Inr None"
  by (simp add: rules_before_mobile contact_fields blank_string trimmed_def)

lemma trim_Jo: "trim (lit ''Jo'') = lit ''Jo''"
  by (simp add: trim_def lit_def is_space_def)

lemma trim_Hi: "trim (lit ''Hi'') = lit ''Hi''"
  by (simp add: trim_def lit_def is_space_def)

lemma trim_jo_x_com: "trim (lit ''jo@x.com'') = lit ''jo@x.com''"
  by (simp add: trim_def lit_def is_space_def)

lemma email_jo_x_com: "regex_test emailRegex (lit ''jo@x.com'')"
proof -
  have "lit ''jo@x.com'' = lit ''jo'' @ [0x40] @ lit ''x'' @ [0x2E] @ lit ''com''"
    by (simp add: lit_def)
  moreover have "\<forall>x\<in>set (lit ''jo'') \<union> set (lit ''x'') \<union> set (lit ''com''). not_space_at x"
    by (simp add: lit_def not_space_at_def is_space_def)
  moreover have "lit ''jo'' \<noteq> []" "lit ''x'' \<noteq> []" "lit ''com'' \<noteq> []"
    by (simp_all add: lit_def)
  ultimately show ?thesis
    unfolding regex_test_iff email_lang by blast
qed

lemma sample_before_mobile:
  "first_failing rt (contact (lit ''Jo'') (lit ''jo@x.com'') (lit ''Hi'') others)
     (rules_before MobileFormat) = Inr None"
  by (rule contact_rules_before_mobile)
     (simp_all add: trim_Jo trim_Hi trim_jo_x_com email_jo_x_com, simp_all add: lit_def)

section \<open>The email that is sent\<close>

lemma andThen_InrE:
  assumes "andThen m f = Inr r"
  obtains x where "m = Inr x" and "f x = Inr r"
  using assms by (cases m) (simp_all add: andThen_def)

lemma escapeHtml_js_InrE:
  assumes "escapeHtml_js v = Inr r"
  obtains s where "v = Some (JStr s)" and "r = escapeHtml s"
  using assms by (cases v rule: escapeHtml_js.cases) simp_all

lemma escapeHtml_js_Inr_iff:
  "escapeHtml_js v = Inr r \<longleftrightarrow> (\<exists>s. v = Some (JStr s) \<and> r = escapeHtml s)"
  by (cases v rule: escapeHtml_js.cases) auto

lemma get_prop_Some_field: "get_prop (Some d) (lit k) = Inr v \<Longrightarrow> field d k = v"
  by (simp add: field_def)

lemma emailRequest_html:
  assumes "emailRequest rt env d = Inr (Ready q)"
  shows "\<exists>n e m safeMobile safeSubject.
     field d ''name'' = Some (JStr n) \<and> field d ''email'' = Some (JStr e) \<and>
     field d ''message'' = Some (JStr m) \<and>
     (if truthy (field d ''mobile'')
      then \<exists>s. field d ''mobile'' = Some (JStr s) \<and> safeMobile = escapeHtml s
      else safeMobile = []) \<and>
     (if truthy (field d ''subject'')
      then \<exists>s. field d ''subject'' = Some (JStr s) \<and> safeSubject = escapeHtml s
      else safeSubject = lit ''No subject provided'') \<and>
     html_part (payload q) =
       htmlContent (escapeHtml n) (escapeHtml e) safeMobile safeSubject
         (replace_all 0x0A (lit ''<br>'') (escapeHtml m))"
proof -
  from assms have set: "\<not> (unset (MAILTRAP_API_TOKEN env) \<or> unset (FROM_EMAIL env) \<or> unset (TO_EMAIL env))"
    by (auto simp: emailRequest_def Let_def)
  from assms set obtain subj subjectText name safeName email safeEmail mobile safeMobile
      safeSubject msg escaped where
    g: "get_prop (Some d) (lit ''subject'') = Inr subj"
       "get_prop (Some d) (lit ''name'') = Inr name"
       "get_prop (Some d) (lit ''email'') = Inr email"
       "get_prop (Some d) (lit ''mobile'') = Inr mobile"
       "get_prop (Some d) (lit ''message'') = Inr msg" and
    e: "escapeHtml_js name = Inr safeName" "escapeHtml_js email = Inr safeEmail"
       "(if truthy mobile then escapeHtml_js mobile else Inr []) = Inr safeMobile"
       "(if truthy subj then escapeHtml_js subj else Inr (lit ''No subject provided'')) = Inr safeSubject"
       "escapeHtml_js msg = Inr escaped" and
    h: "html_part (payload q) =
         htmlContent safeName safeEmail safeMobile safeSubject (replace_all 0x0A (lit ''<br>'') escaped)"
    unfolding emailRequest_def Let_def
    by (simp only: if_False, elim andThen_InrE) auto
  from g have f: "field d ''subject'' = subj" "field d ''name'' = name" "field d ''email'' = email"
    "field d ''mobile'' = mobile" "field d ''message'' = msg"
    by (simp_all add: get_prop_Some_field)
  from e(1) obtain n where n: "name = Some (JStr n)" "safeName = escapeHtml n"
    by (rule escapeHtml_js_InrE)
  from e(2) obtain em where em: "email = Some (JStr em)" "safeEmail = escapeHtml em"
    by (rule escapeHtml_js_InrE)
  from e(5) obtain m where m: "msg = Some (JStr m)" "escaped = escapeHtml m"
    by (rule escapeHtml_js_InrE)
  have mob: "if truthy mobile then \<exists>s. mobile = Some (JStr s) \<and> safeMobile = escapeHtml s
             else safeMobile = []"
    using e(3) by (simp add: escapeHtml_js_Inr_iff split: if_splits)
  have sub: "if truthy subj then \<exists>s. subj = Some (JStr s) \<and> safeSubject = escapeHtml s
             else safeSubject = lit ''No subject provided''"
    using e(4) by (simp add: escapeHtml_js_Inr_iff split: if_splits)
  show ?thesis
    using f n em m mob sub h by (intro exI [of _ n] exI [of _ em] exI [of _ m] exI [of _ safeMobile] exI [of _ safeSubject]) simp
qed

lemma String_string: "String rt (Some (JStr s)) = Inr s"
  by (simp add: String_def)

lemma String_or_string:
  "\<not> truthy v \<or> (\<exists>s. v = Some (JStr s)) \<Longrightarrow> \<exists>t. String rt (js_or v (Some (JStr d))) = Inr t"
  by (auto simp: js_or_def String_string)

lemma escape_or_default:
  "\<not> truthy v \<or> (\<exists>s. v = Some (JStr s)) \<Longrightarrow>
   \<exists>t. (if truthy v then escapeHtml_js v else Inr d) = Inr t"
  by auto

lemma String_line:
  "\<not> truthy v \<or> (\<exists>s. v = Some (JStr s)) \<Longrightarrow>
   \<exists>t. (if truthy v then andThen (String rt v) (\<lambda>m. Inr (g m)) else Inr []) = Inr t"
  by (auto simp: String_string andThen_def)

lemma emailRequest_ready:
  assumes env: "\<not> unset (MAILTRAP_API_TOKEN env)" "\<not> unset (FROM_EMAIL env)"
      "\<not> unset (TO_EMAIL env)"
    and mobile: "\<not> truthy (map_of (rev others) (lit ''mobile'')) \<or>
      (\<exists>s. map_of (rev others) (lit ''mobile'') = Some (JStr s))"
    and subject: "\<not> truthy (map_of (rev others) (lit ''subject'')) \<or>
      (\<exists>s. map_of (rev others) (lit ''subject'') = Some (JStr s))"
  shows "\<exists>q. emailRequest rt env (contact n e m others) = Inr (Ready q)"
proof -
  have g: "\<And>k. get_prop (Some (contact n e m others)) (lit k) = Inr (field (contact n e m others) k)"
    by (rule get_prop_field) (rule contact_fields)
  from String_or_string [OF subject] obtain t1 where
    s1: "String rt (js_or (map_of (rev others) (lit ''subject'')) (Some (JStr (lit ''New Inquiry'')))) = Inr t1"
    by blast
  from String_or_string [OF subject] obtain t2 where
    s2: "String rt (js_or (map_of (rev others) (lit ''subject'')) (Some (JStr (lit ''No subject provided'')))) = Inr t2"
    by blast
  from escape_or_default [OF subject] obtain t3 where
    s3: "(if truthy (map_of (rev others) (lit ''subject''))
          then escapeHtml_js (map_of (rev others) (lit ''subject''))
          else Inr (lit ''No subject provided'')) = Inr t3"
    by blast
  from escape_or_default [OF mobile] obtain t4 where
    m1: "(if truthy (map_of (rev others) (lit ''mobile''))
          then escapeHtml_js (map_of (rev others) (lit ''mobile'')) else Inr []) = Inr t4"
    by blast
  from String_line [where rt = rt and g = "\<lambda>m. 0x0A # lit ''Mobile: '' @ m", OF mobile] obtain t5 where
    m2: "(if truthy (map_of (rev others) (lit ''mobile''))
          then andThen (String rt (map_of (rev others) (lit ''mobile'')))
                 (\<lambda>m. Inr (0x0A # lit ''Mobile: '' @ m))
          else Inr []) = Inr t5"
    by blast
  show ?thesis
    unfolding emailRequest_def Let_def g contact_fields
    using env by (simp add: s1 s2 s3 m1 m2 andThen_def String_string)
qed

lemma sample_env_set:
  "\<not> unset (MAILTRAP_API_TOKEN sample_env)" "\<not> unset (FROM_EMAIL sample_env)"
  "\<not> unset (TO_EMAIL sample_env)"
  by (simp_all add: sample_env_def unset_def lit_def)

lemma sendEmail_ready:
  "emailRequest rt env d = Inr (Ready q) \<Longrightarrow>
   sendEmail fetch rt env d = (case fetch q of Responded s \<Rightarrow> ok s | Rejected \<Rightarrow> False)"
  by (simp add: sendEmail_def)

lemma sendEmail_not_ready:
  "emailRequest rt env d = Inr Missing \<or> emailRequest rt env d = Inl e \<Longrightarrow>
   \<not> sendEmail fetch rt env d"
  by (auto simp: sendEmail_def)

lemma handle_valid:
  assumes "req_method rq = ''POST''" "req_pathname rq = ''/contact''" "req_json rq = Some d"
    and "validateInput rt d = Inr v" and "isValid v"
  shows "handleRequest fetch rt env rq =
     (if sendEmail fetch rt env d then
        \<lparr>status = 200,
         headers = (''Content-Type'', ''application/json'') # getCORSHeaders,
         body = Some (JSON_stringify ''success'' ''Your inquiry has been sent.'')\<rparr>
      else createErrorResponse ''Unable to send your inquiry. Please try again later.'' 500)"
  using assms by (simp add: handle_contact)

lemma later_rules_short:
  "length (trim n) \<le> 100 \<Longrightarrow> length (trim m) \<le> 1000 \<Longrightarrow>
   map_of (rev others) (lit ''subject'') = None \<Longrightarrow>
   first_failing rt (contact n e m others) [NameLength, SubjectLength, MessageLength] = Inr None"
  by (simp add: contact_fields trimmed_def subject_too_long_def)

lemma sample_later_rules:
  "map_of (rev others) (lit ''subject'') = None \<Longrightarrow>
   first_failing rt (contact (lit ''Jo'') (lit ''jo@x.com'') (lit ''Hi'') others)
     [NameLength, SubjectLength, MessageLength] = Inr None"
  by (rule later_rules_short) (simp_all add: trim_Jo trim_Hi, simp_all add: lit_def)

lemma sample_body_valid: "validateInput rt sample_body = Inr \<lparr>isValid = True, message = None\<rparr>"
proof -
  have "validateInput rt sample_body =
      verdict (first_failing rt sample_body [NameLength, SubjectLength, MessageLength])"
    unfolding sample_body_def
    by (rule validateInput_mobile_skipped) (simp_all add: sample_before_mobile contact_fields)
  moreover have "first_failing rt sample_body [NameLength, SubjectLength, MessageLength] = Inr None"
    unfolding sample_body_def by (rule sample_later_rules) simp
  ultimately show ?thesis
    by (simp only: verdict_def sum.case option.case)
qed

lemma trim_spaced: "trim (lit '' 1234567'') = lit ''1234567''"
  by (simp add: trim_def lit_def is_space_def)

lemma mobile_ok_1234567: "mobile_ok (lit ''1234567'')"
  by (simp add: mobile_ok_def lit_def is_digit_def)

lemma spaced_mobile_body_valid:
  "validateInput rt spaced_mobile_body = Inr \<lparr>isValid = True, message = None\<rparr>"
proof -
  have "validateInput rt spaced_mobile_body =
     (case to_string rt (JStr (lit '' 1234567'')) of
        Inl e \<Rightarrow> Inl e
      | Inr s \<Rightarrow>
          if \<not> mobile_ok (trim s)
          then Inr \<lparr>isValid = False, message = Some ''Mobile number must be valid''\<rparr>
          else verdict (first_failing rt spaced_mobile_body [NameLength, SubjectLength, MessageLength]))"
    unfolding spaced_mobile_body_def
    by (rule validateInput_at_mobile) (simp_all add: sample_before_mobile contact_fields, simp add: lit_def)
  moreover have "first_failing rt spaced_mobile_body [NameLength, SubjectLength, MessageLength] = Inr None"
    unfolding spaced_mobile_body_def by (rule sample_later_rules) (simp add: lit_keys)
  ultimately show ?thesis
    by (simp only: to_string.simps sum.case trim_spaced mobile_ok_1234567 verdict_def
          option.case not_True_eq_False if_False)
qed

section \<open>Sending and the mobile rule\<close>

lemma rule_texts:
  \<open>JSON_stringify ''error'' ''Invalid request body'' =
     ''{"status":"error","message":"Invalid request body"}''\<close>
  \<open>JSON_stringify ''error'' ''Name is required'' =
     ''{"status":"error","message":"Name is required"}''\<close>
  \<open>JSON_stringify ''error'' ''Email is required'' =
     ''{"status":"error","message":"Email is required"}''\<close>
  \<open>JSON_stringify ''error'' ''Message is required'' =
     ''{"status":"error","message":"Message is required"}''\<close>
  \<open>JSON_stringify ''error'' ''Please provide a valid email address'' =
     ''{"status":"error","message":"Please provide a valid email address"}''\<close>
  \<open>JSON_stringify ''error'' ''Mobile number must be valid'' =
     ''{"status":"error","message":"Mobile number must be valid"}''\<close>
  \<open>JSON_stringify ''error'' ''Name must be less than 100 characters'' =
     ''{"status":"error","message":"Name must be less than 100 characters"}''\<close>
  \<open>JSON_stringify ''error'' ''Subject must be less than 200 characters'' =
     ''{"status":"error","message":"Subject must be less than 200 characters"}''\<close>
  \<open>JSON_stringify ''error'' ''Message must be less than 1000 characters'' =
     ''{"status":"error","message":"Message must be less than 1000 characters"}''\<close>
  by (simp_all add: JSON_stringify_def quote_def quote_char_def)

lemma handle_invalid:
  assumes "req_method rq = ''POST''" "req_pathname rq = ''/contact''" "req_json rq = Some d"
    and "validateInput rt d = Inr \<lparr>isValid = False, message = Some m\<rparr>" and "m \<noteq> []"
  shows "handleRequest fetch rt env rq = createErrorResponse m 400"
  using assms by (simp add: handle_contact or_default_def)

text \<open>
  C2. A POST to /contact with a body that passes validation: when the outbound call
  is made and comes back with a status from 200 to 299 the response is 200 with the
  success text; when it comes back with any other status, or raises, the response is
  500 with the generic failure text; and so it is when the call is never made.
\<close>

theorem send_outcome_decides_response:
  assumes "req_method rq = ''POST''" and "req_pathname rq = ''/contact''"
    and "req_json rq = Some d"
    and "validateInput rt d = Inr \<lparr>isValid = True, message = None\<rparr>"
  shows
    \<open>(\<forall>q s. emailRequest rt env d = Inr (Ready q) \<and> fetch q = Responded s \<and>
         200 \<le> s \<and> s \<le> 299 \<longrightarrow>
         status (handleRequest fetch rt env rq) = 200 \<and>
         body (handleRequest fetch rt env rq) =
           Some ''{"status":"success","message":"Your inquiry has been sent."}'') \<and>
     (\<forall>q s. emailRequest rt env d = Inr (Ready q) \<and> fetch q = Responded s \<and>
         \<not> (200 \<le> s \<and> s \<le> 299) \<longrightarrow>
         status (handleRequest fetch rt env rq) = 500 \<and>
         body (handleRequest fetch rt env rq) =
           Some ''{"status":"error","message":"Unable to send your inquiry. Please try again later."}'') \<and>
     (\<forall>q. emailRequest rt env d = Inr (Ready q) \<and> fetch q = Rejected \<longrightarrow>
         status (handleRequest fetch rt env rq) = 500 \<and>
         body (handleRequest fetch rt env rq) =
           Some ''{"status":"error","message":"Unable to send your inquiry. Please try again later."}'') \<and>
     ((\<forall>q. emailRequest rt env d \<noteq> Inr (Ready q)) \<longrightarrow>
         status (handleRequest fetch rt env rq) = 500 \<and>
         body (handleRequest fetch rt env rq) =
           Some ''{"status":"error","message":"Unable to send your inquiry. Please try again later."}'')\<close>
proof -
  have h: "handleRequest fetch rt env rq =
     (if sendEmail fetch rt env d then
        \<lparr>status = 200,
         headers = (''Content-Type'', ''application/json'') # getCORSHeaders,
         body = Some (JSON_stringify ''success'' ''Your inquiry has been sent.'')\<rparr>
      else createErrorResponse ''Unable to send your inquiry. Please try again later.'' 500)"
    by (rule handle_valid [OF assms]) simp
  have never: "\<forall>q. emailRequest rt env d \<noteq> Inr (Ready q) \<Longrightarrow> \<not> sendEmail fetch rt env d"
    by (auto simp: sendEmail_def split: sum.splits prepared.splits)
  show ?thesis
    unfolding h
    by (auto simp: sendEmail_ready never ok_def createErrorResponse_def text_success text_unable)
qed

theorem send_outcome_decides_response_witness:
  \<open>status (handleRequest (\<lambda>q. Responded 200) sample_runtime sample_env (post_contact sample_body)) = 200 \<and>
   body (handleRequest (\<lambda>q. Responded 200) sample_runtime sample_env (post_contact sample_body)) =
     Some ''{"status":"success","message":"Your inquiry has been sent."}'' \<and>
   status (handleRequest (\<lambda>q. Responded 503) sample_runtime sample_env (post_contact sample_body)) = 500 \<and>
   status (handleRequest (\<lambda>q. Rejected) sample_runtime sample_env (post_contact sample_body)) = 500 \<and>
   status (handleRequest (\<lambda>q. Responded 200) sample_runtime
      (sample_env\<lparr>MAILTRAP_API_TOKEN := None\<rparr>) (post_contact sample_body)) = 500\<close>
proof -
  have "\<exists>q. emailRequest sample_runtime sample_env sample_body = Inr (Ready q)"
    unfolding sample_body_def by (rule emailRequest_ready [OF sample_env_set]) simp_all
  then obtain q where q: "emailRequest sample_runtime sample_env sample_body = Inr (Ready q)" ..
  have m: "\<forall>q. emailRequest sample_runtime (sample_env\<lparr>MAILTRAP_API_TOKEN := None\<rparr>) sample_body
      \<noteq> Inr (Ready q)"
    by (simp add: emailRequest_def unset_def)
  have rq: "req_method (post_contact sample_body) = ''POST''"
    "req_pathname (post_contact sample_body) = ''/contact''"
    "req_json (post_contact sample_body) = Some sample_body"
    by (simp_all add: post_contact_def)
  show ?thesis
    using
      send_outcome_decides_response [where env = sample_env and fetch = "\<lambda>q. Responded 200",
        OF rq sample_body_valid]
      send_outcome_decides_response [where env = sample_env and fetch = "\<lambda>q. Responded 503",
        OF rq sample_body_valid]
      send_outcome_decides_response [where env = sample_env and fetch = "\<lambda>q. Rejected",
        OF rq sample_body_valid]
      send_outcome_decides_response [where env = "sample_env\<lparr>MAILTRAP_API_TOKEN := None\<rparr>"
        and fetch = "\<lambda>q. Responded 200", OF rq sample_body_valid]
      q m
    by simp
qed

lemma digits_trim: "mobile_ok t \<Longrightarrow> trim t = t"
  by (rule trim_no_space) (auto simp: mobile_ok_def list_all_iff digit_not_space)

text \<open>
  C7, as stated: a mobile that is not a digit-only string would be answered 400. The
  example body with the mobile " 1234567" (a space, then seven digits) passes the
  earlier rules, its mobile is not a string of digits only, and with the email
  service answering 200 the response is 200: the check is made on the trimmed text.
\<close>

theorem mobile_not_digits_counterexample:
  "first_failing sample_runtime spaced_mobile_body (rules_before MobileFormat) = Inr None \<and>
   field spaced_mobile_body ''mobile'' = Some (JStr (lit '' 1234567'')) \<and>
   \<not> list_all is_digit (lit '' 1234567'') \<and>
   status (handleRequest (\<lambda>q. Responded 200) sample_runtime sample_env
     (post_contact spaced_mobile_body)) = 200"
proof -
  have "\<exists>q. emailRequest sample_runtime sample_env spaced_mobile_body = Inr (Ready q)"
    unfolding spaced_mobile_body_def
    by (rule emailRequest_ready [OF sample_env_set]) (simp_all add: lit_keys)
  then obtain q where q: "emailRequest sample_runtime sample_env spaced_mobile_body = Inr (Ready q)" ..
  have "handleRequest (\<lambda>q. Responded 200) sample_runtime sample_env (post_contact spaced_mobile_body) =
     (if sendEmail (\<lambda>q. Responded 200) sample_runtime sample_env spaced_mobile_body then
        \<lparr>status = 200,
         headers = (''Content-Type'', ''application/json'') # getCORSHeaders,
         body = Some (JSON_stringify ''success'' ''Your inquiry has been sent.'')\<rparr>
      else createErrorResponse ''Unable to send your inquiry. Please try again later.'' 500)"
    by (rule handle_valid [OF _ _ _ spaced_mobile_body_valid]) (simp_all add: post_contact_def)
  then have "status (handleRequest (\<lambda>q. Responded 200) sample_runtime sample_env
     (post_contact spaced_mobile_body)) = 200"
    by (simp add: sendEmail_ready [OF q] ok_def)
  moreover have "\<not> list_all is_digit (lit '' 1234567'')"
    by (simp add: lit_def is_digit_def)
  moreover have "first_failing sample_runtime spaced_mobile_body (rules_before MobileFormat) = Inr None"
    unfolding spaced_mobile_body_def by (rule sample_before_mobile)
  moreover have "field spaced_mobile_body ''mobile'' = Some (JStr (lit '' 1234567''))"
    by (simp add: spaced_mobile_body_def contact_fields)
  ultimately show ?thesis by simp
qed

text \<open>
  C7, amended. For a POST to /contact whose body passes the rules before the mobile
  rule: when mobile is there and is neither null nor the empty string, and its
  conversion by String gives a text, the response is 400 "Mobile number must be valid"
  if that text, with the white space at its ends removed, is not a string of 7 to 15
  digits, and the mobile rule passes if it is; a string of 7 to 15 digits passes as
  it is; and a mobile that is absent, null or the empty string passes unchecked.
\<close>

theorem mobile_rule_on_trimmed_text:
  assumes "req_method rq = ''POST''" and "req_pathname rq = ''/contact''"
    and "req_json rq = Some d"
    and "first_failing rt d (rules_before MobileFormat) = Inr None"
  shows
    \<open>(\<forall>v s. field d ''mobile'' = Some v \<and> v \<noteq> JNull \<and> v \<noteq> JStr [] \<and>
         to_string rt v = Inr s \<and> \<not> mobile_ok (trim s) \<longrightarrow>
         status (handleRequest fetch rt env rq) = 400 \<and>
         body (handleRequest fetch rt env rq) =
           Some ''{"status":"error","message":"Mobile number must be valid"}'') \<and>
     (\<forall>v s. field d ''mobile'' = Some v \<and> v \<noteq> JNull \<and> v \<noteq> JStr [] \<and>
         to_string rt v = Inr s \<and> mobile_ok (trim s) \<longrightarrow>
         rule_fails rt d MobileFormat = Inr False) \<and>
     (\<forall>t. field d ''mobile'' = Some (JStr t) \<and> mobile_ok t \<longrightarrow>
         rule_fails rt d MobileFormat = Inr False) \<and>
     (field d ''mobile'' = None \<or> field d ''mobile'' = Some JNull \<or>
        field d ''mobile'' = Some (JStr []) \<longrightarrow>
         rule_fails rt d MobileFormat = Inr False)\<close>
proof (intro conjI allI impI)
  fix v s
  assume a: "field d ''mobile'' = Some v \<and> v \<noteq> JNull \<and> v \<noteq> JStr [] \<and>
         to_string rt v = Inr s \<and> \<not> mobile_ok (trim s)"
  then have "validateInput rt d =
      Inr \<lparr>isValid = False, message = Some ''Mobile number must be valid''\<rparr>"
    using validateInput_at_mobile [OF assms(4), of v] by simp
  then have r: "handleRequest fetch rt env rq = createErrorResponse ''Mobile number must be valid'' 400"
    using assms(1-3) by (intro handle_invalid) simp_all
  show "status (handleRequest fetch rt env rq) = 400"
    by (simp add: r createErrorResponse_def)
  show \<open>body (handleRequest fetch rt env rq) =
           Some ''{"status":"error","message":"Mobile number must be valid"}''\<close>
    by (simp add: r createErrorResponse_def rule_texts)
next
  fix v s
  assume "field d ''mobile'' = Some v \<and> v \<noteq> JNull \<and> v \<noteq> JStr [] \<and>
         to_string rt v = Inr s \<and> mobile_ok (trim s)"
  then show "rule_fails rt d MobileFormat = Inr False"
    by (simp add: mobile_invalid_present andThen_def)
next
  fix t
  assume a: "field d ''mobile'' = Some (JStr t) \<and> mobile_ok t"
  then have "t \<noteq> []" by (simp add: mobile_ok_def)
  with a show "rule_fails rt d MobileFormat = Inr False"
    by (simp add: mobile_invalid_present andThen_def digits_trim)
next
  assume "field d ''mobile'' = None \<or> field d ''mobile'' = Some JNull \<or>
        field d ''mobile'' = Some (JStr [])"
  then show "rule_fails rt d MobileFormat = Inr False"
    by (simp add: mobile_invalid_skipped)
qed

theorem mobile_rule_on_trimmed_text_witness:
  \<open>status (handleRequest (\<lambda>q. Rejected) sample_runtime sample_env
      (post_contact short_mobile_body)) = 400 \<and>
   body (handleRequest (\<lambda>q. Rejected) sample_runtime sample_env
      (post_contact short_mobile_body)) =
      Some ''{"status":"error","message":"Mobile number must be valid"}'' \<and>
   rule_fails sample_runtime spaced_mobile_body MobileFormat = Inr False \<and>
   rule_fails sample_runtime sample_body MobileFormat = Inr False\<close>
proof -
  have short: "first_failing sample_runtime short_mobile_body (rules_before MobileFormat) = Inr None"
    unfolding short_mobile_body_def by (rule sample_before_mobile)
  have spaced: "first_failing sample_runtime spaced_mobile_body (rules_before MobileFormat) = Inr None"
    unfolding spaced_mobile_body_def by (rule sample_before_mobile)
  have plain: "first_failing sample_runtime sample_body (rules_before MobileFormat) = Inr None"
    unfolding sample_body_def by (rule sample_before_mobile)
  have f: "field short_mobile_body ''mobile'' = Some (JStr (lit ''12345''))"
    "field spaced_mobile_body ''mobile'' = Some (JStr (lit '' 1234567''))"
    "field sample_body ''mobile'' = None"
    by (simp_all add: short_mobile_body_def spaced_mobile_body_def sample_body_def contact_fields)
  have t: "trim (lit ''12345'') = lit ''12345''" "\<not> mobile_ok (lit ''12345'')"
    "lit ''12345'' \<noteq> []" "lit '' 1234567'' \<noteq> []"
    by (simp_all add: trim_def lit_def is_space_def mobile_ok_def)
  have rq: "\<And>d. req_method (post_contact d) = ''POST''"
    "\<And>d. req_pathname (post_contact d) = ''/contact''"
    "\<And>d. req_json (post_contact d) = Some d"
    by (simp_all add: post_contact_def)
  show ?thesis
    using
      mobile_rule_on_trimmed_text [where fetch = "\<lambda>q. Rejected" and env = sample_env, OF rq short]
      mobile_rule_on_trimmed_text [where fetch = "\<lambda>q. Rejected" and env = sample_env, OF rq spaced]
      mobile_rule_on_trimmed_text [where fetch = "\<lambda>q. Rejected" and env = sample_env, OF rq plain]
    by (simp add: f t trim_spaced mobile_ok_1234567)
qed

text \<open>
  C10. When the body passes the rules before the mobile rule and its mobile is there
  and is neither null nor the empty string, the value is converted with String and
  trimmed, and the digit check is made on that text; so a mobile that is a JSON
  number of 7 to 15 digits prints as its digits and passes, and validation goes on
  with the length rules.
\<close>

theorem mobile_is_converted_with_String:
  assumes "first_failing rt d (rules_before MobileFormat) = Inr None"
    and "field d ''mobile'' = Some v" and "v \<noteq> JNull" and "v \<noteq> JStr []"
  shows
    "validateInput rt d =
       (case to_string rt v of
          Inl e \<Rightarrow> Inl e
        | Inr s \<Rightarrow>
            if \<not> mobile_ok (trim s)
            then Inr \<lparr>isValid = False, message = Some ''Mobile number must be valid''\<rparr>
            else verdict (first_failing rt d [NameLength, SubjectLength, MessageLength])) \<and>
     (\<forall>n. v = JNum (Fin (of_nat n)) \<and> 10 ^ 6 \<le> n \<and> n < 10 ^ 15 \<longrightarrow>
        to_string rt v = Inr (dec n) \<and> mobile_ok (trim (dec n)) \<and>
        validateInput rt d =
          verdict (first_failing rt d [NameLength, SubjectLength, MessageLength]))"
proof (intro conjI allI impI)
  show at: "validateInput rt d =
       (case to_string rt v of
          Inl e \<Rightarrow> Inl e
        | Inr s \<Rightarrow>
            if \<not> mobile_ok (trim s)
            then Inr \<lparr>isValid = False, message = Some ''Mobile number must be valid''\<rparr>
            else verdict (first_failing rt d [NameLength, SubjectLength, MessageLength]))"
    by (rule validateInput_at_mobile [OF assms])
  fix n
  assume n: "v = JNum (Fin (of_nat n)) \<and> 10 ^ 6 \<le> n \<and> n < 10 ^ 15"
  then show s: "to_string rt v = Inr (dec n)"
    by (simp only: to_string.simps number_string_of_nat)
  from n show ok: "mobile_ok (trim (dec n))"
    by (simp only: trim_dec mobile_ok_dec)
  from at s ok show "validateInput rt d =
      verdict (first_failing rt d [NameLength, SubjectLength, MessageLength])"
    by simp
qed

theorem mobile_is_converted_with_String_witness:
  "validateInput sample_runtime number_mobile_body = Inr \<lparr>isValid = True, message = None\<rparr>"
proof -
  have before: "first_failing sample_runtime number_mobile_body (rules_before MobileFormat) = Inr None"
    unfolding number_mobile_body_def by (rule sample_before_mobile)
  have f: "field number_mobile_body ''mobile'' = Some (JNum (Fin (of_nat 1234567)))"
    by (simp add: number_mobile_body_def contact_fields)
  have later: "first_failing sample_runtime number_mobile_body
      [NameLength, SubjectLength, MessageLength] = Inr None"
    unfolding number_mobile_body_def by (rule sample_later_rules) (simp add: lit_keys)
  have "validateInput sample_runtime number_mobile_body =
      verdict (first_failing sample_runtime number_mobile_body
        [NameLength, SubjectLength, MessageLength])"
    using mobile_is_converted_with_String [OF before f] by simp
  then show ?thesis
    by (simp only: later verdict_def sum.case option.case)
qed

section \<open>The order of the rules and the email rule\<close>

lemma rule_message_text:
  \<open>JSON_stringify ''error'' (rule_message BodyIsObject) =
     ''{"status":"error","message":"Invalid request body"}''\<close>
  \<open>JSON_stringify ''error'' (rule_message NamePresent) =
     ''{"status":"error","message":"Name is required"}''\<close>
  \<open>JSON_stringify ''error'' (rule_message EmailPresent) =
     ''{"status":"error","message":"Email is required"}''\<close>
  \<open>JSON_stringify ''error'' (rule_message MessagePresent) =
     ''{"status":"error","message":"Message is required"}''\<close>
  \<open>JSON_stringify ''error'' (rule_message EmailFormat) =
     ''{"status":"error","message":"Please provide a valid email address"}''\<close>
  \<open>JSON_stringify ''error'' (rule_message MobileFormat) =
     ''{"status":"error","message":"Mobile number must be valid"}''\<close>
  \<open>JSON_stringify ''error'' (rule_message NameLength) =
     ''{"status":"error","message":"Name must be less than 100 characters"}''\<close>
  \<open>JSON_stringify ''error'' (rule_message SubjectLength) =
     ''{"status":"error","message":"Subject must be less than 200 characters"}''\<close>
  \<open>JSON_stringify ''error'' (rule_message MessageLength) =
     ''{"status":"error","message":"Message must be less than 1000 characters"}''\<close>
  by (simp_all only: rule_message.simps rule_texts)

lemma rule_failure_response:
  assumes "req_method rq = ''POST''" "req_pathname rq = ''/contact''" "req_json rq = Some d"
    and "first_failing rt d rule_order = Inr (Some r)"
  shows "status (handleRequest fetch rt env rq) = 400"
    and "body (handleRequest fetch rt env rq) = Some (JSON_stringify ''error'' (rule_message r))"
  using handle_rule_failure [OF assms] by (simp_all add: createErrorResponse_def)










lemma field_name_object: "field d ''name'' = Some x \<Longrightarrow> is_object d"
  by (cases d) (simp_all add: field_def lit_def split: if_splits)

lemma not_email_jo: "\<not> regex_test emailRegex (lit ''jo'')"
  by (simp add: regex_test_def emailRegex_def Plus_def Chr_def lit_def not_space_at_def is_space_def)

text \<open>
  C6, as stated: with name, email and message present, non-empty strings, an email
  that does not match after trimming would be answered "Please provide a valid email
  address". An email of three spaces is a non-empty string that does not match after
  trimming, and the answer is "Email is required".
\<close>

theorem non_empty_email_counterexample:
  \<open>field space_email_body ''name'' = Some (JStr (lit ''Jo'')) \<and> lit ''Jo'' \<noteq> [] \<and>
   field space_email_body ''email'' = Some (JStr (lit ''   '')) \<and> lit ''   '' \<noteq> [] \<and>
   field space_email_body ''message'' = Some (JStr (lit ''Hi'')) \<and> lit ''Hi'' \<noteq> [] \<and>
   trim (lit ''   '') \<notin> lang emailRegex \<and>
   body (handleRequest (\<lambda>q. Responded 200) sample_runtime sample_env
      (post_contact space_email_body)) = Some ''{"status":"error","message":"Email is required"}'' \<and>
   body (handleRequest (\<lambda>q. Responded 200) sample_runtime sample_env
      (post_contact space_email_body)) \<noteq>
      Some ''{"status":"error","message":"Please provide a valid email address"}''\<close>
proof -
  have t: "trim (lit ''   '') = []"
    by (simp add: trim_def lit_def is_space_def)
  have ne: "lit ''Jo'' \<noteq> []" "lit ''   '' \<noteq> []" "lit ''Hi'' \<noteq> []"
    by (simp_all add: lit_def)
  have "first_failing sample_runtime space_email_body (rules_before EmailFormat) =
      Inr (Some EmailPresent)"
    by (simp add: space_email_body_def contact_required_rules t trim_Jo ne)
  then have "first_failing sample_runtime space_email_body rule_order = Inr (Some EmailPresent)"
    by (subst rule_order_from_email_format) (simp only: first_failing_append sum.case option.case)
  then have "handleRequest (\<lambda>q. Responded 200) sample_runtime sample_env
      (post_contact space_email_body) = createErrorResponse (rule_message EmailPresent) 400"
    by (intro handle_rule_failure) (simp_all add: post_contact_def)
  then have b: \<open>body (handleRequest (\<lambda>q. Responded 200) sample_runtime sample_env
      (post_contact space_email_body)) = Some ''{"status":"error","message":"Email is required"}''\<close>
    by (simp add: createErrorResponse_def rule_texts)
  have f: "field space_email_body ''name'' = Some (JStr (lit ''Jo''))"
    "field space_email_body ''email'' = Some (JStr (lit ''   ''))"
    "field space_email_body ''message'' = Some (JStr (lit ''Hi''))"
    by (simp_all add: space_email_body_def contact_fields)
  have "\<not> regex_test emailRegex []"
    by (simp add: regex_test_def emailRegex_def Plus_def Chr_def)
  then have "trim (lit ''   '') \<notin> lang emailRegex"
    by (simp add: t regex_test_iff)
  with b f ne show ?thesis by simp
qed

text \<open>
  C6, amended. For a POST to /contact whose body has name, email and message that
  are strings and are not empty after trimming: if the trimmed email is not in the
  language of the pattern, the response is 400 "Please provide a valid email address".
\<close>

theorem unmatched_email_is_rejected:
  assumes "req_method rq = ''POST''" and "req_pathname rq = ''/contact''"
    and "req_json rq = Some d"
    and "field d ''name'' = Some (JStr n)" and "trim n \<noteq> []"
    and "field d ''email'' = Some (JStr e)" and "trim e \<noteq> []"
    and "field d ''message'' = Some (JStr m)" and "trim m \<noteq> []"
    and "trim e \<notin> lang emailRegex"
  shows \<open>status (handleRequest fetch rt env rq) = 400 \<and>
    body (handleRequest fetch rt env rq) =
      Some ''{"status":"error","message":"Please provide a valid email address"}''\<close>
proof -
  have obj: "is_object d" using assms(4) by (rule field_name_object)
  have "first_failing rt d (rules_before EmailFormat) = Inr None"
    using assms(4-9) obj by (simp add: rules_before_email_format blank_string)
  moreover have "rule_fails rt d EmailFormat = Inr True"
    using assms(6,10) by (simp add: trimmed_def regex_test_iff)
  ultimately have "first_failing rt d rule_order = Inr (Some EmailFormat)"
    by (subst rule_order_from_email_format) (simp add: first_failing_append)
  from rule_failure_response [OF assms(1-3) this] show ?thesis
    by (simp only: rule_message_text)
qed

theorem unmatched_email_is_rejected_witness:
  \<open>status (handleRequest (\<lambda>q. Responded 200) sample_runtime sample_env
      (post_contact bad_email_body)) = 400 \<and>
    body (handleRequest (\<lambda>q. Responded 200) sample_runtime sample_env
      (post_contact bad_email_body)) =
      Some ''{"status":"error","message":"Please provide a valid email address"}''\<close>
proof -
  have t: "trim (lit ''jo'') = lit ''jo''"
    by (simp add: trim_def lit_def is_space_def)
  have ne: "lit ''jo'' \<noteq> []" "lit ''Jo'' \<noteq> []" "lit ''Hi'' \<noteq> []"
    by (simp_all add: lit_def)
  have bad: "lit ''jo'' \<notin> lang emailRegex"
    using not_email_jo by (simp add: regex_test_iff)
  show ?thesis
    by (rule unmatched_email_is_rejected [where n = "lit ''Jo''" and e = "lit ''jo''"
          and m = "lit ''Hi''" and d = bad_email_body])
       (simp_all add: post_contact_def bad_email_body_def contact_fields trim_Jo trim_Hi t ne bad)
qed

section \<open>The length rules\<close>

lemma subject_too_long_string: "subject_too_long rt (Some (JStr s)) = Inr (200 < length s)"
proof (cases "s = []")
  case True
  then show ?thesis by (simp add: subject_too_long_def)
next
  case False
  have "(200 < (of_nat (length s) :: rat)) = (200 < length s)"
    using of_nat_less_iff [where ?'a = rat, of 200 "length s"] by simp
  with False show ?thesis
    by (simp add: subject_too_long_def andThen_def js_gt_def)
qed

lemma subject_too_long_absent: "subject_too_long rt None = Inr False"
  by (simp add: subject_too_long_def)

lemma validateInput_at_lengths:
  assumes "first_failing rt d (rules_before NameLength) = Inr None"
  shows "validateInput rt d = verdict (first_failing rt d [NameLength, SubjectLength, MessageLength])"
  by (simp only: validateInput_rules)
     (subst rule_order_from_name_length, simp only: first_failing_append assms sum.case option.case)

lemma length_rules:
  assumes "field d ''subject'' = None \<or> (\<exists>s. field d ''subject'' = Some (JStr s))"
  shows "first_failing rt d [NameLength, SubjectLength, MessageLength] =
     Inr (if 100 < length (trimmed (field d ''name'')) then Some NameLength
          else if 200 < length (string_value (field d ''subject'')) then Some SubjectLength
          else if 1000 < length (trimmed (field d ''message'')) then Some MessageLength
          else None)"
  using assms
  by (auto simp: subject_too_long_string subject_too_long_absent string_value_def)

lemma letter_not_space: "\<not> is_space 0x61"
  by (simp add: is_space_def)

lemma trim_letters: "trim (replicate k 0x61) = replicate k 0x61"
proof (cases k)
  case 0
  then show ?thesis by (simp add: trim_def)
next
  case (Suc j)
  then show ?thesis by (intro trim_no_space) (simp_all add: letter_not_space)
qed

lemma trim_padded: "trim (replicate (Suc k) 0x61 @ [0x20]) = replicate (Suc k) 0x61"
proof -
  have "dropWhile is_space (replicate (Suc k) 0x61 @ [0x20]) = replicate (Suc k) 0x61 @ [0x20]"
    by (simp add: letter_not_space)
  moreover have "is_space 0x20" by (simp add: is_space_def)
  moreover have "dropWhile is_space (rev (replicate (Suc k) (0x61 :: jschar))) =
      rev (replicate (Suc k) 0x61)"
    by (simp only: rev_replicate) (simp add: letter_not_space)
  ultimately show ?thesis
    by (simp only: trim_def rev_append rev.simps append_Nil append_Cons dropWhile.simps if_True
          rev_rev_ident)
qed

lemma letters_before_lengths:
  assumes "trim n \<noteq> []" and "trim m \<noteq> []"
    and "map_of (rev others) (lit ''mobile'') = None"
  shows "first_failing rt (contact n (lit ''jo@x.com'') m others) (rules_before NameLength) =
    Inr None"
proof -
  have "lit ''jo@x.com'' \<noteq> []" by (simp add: lit_def)
  then have 1: "first_failing rt (contact n (lit ''jo@x.com'') m others)
      (rules_before MobileFormat) = Inr None"
    by (intro contact_rules_before_mobile) (simp_all add: assms trim_jo_x_com email_jo_x_com)
  have 2: "rules_before NameLength = rules_before MobileFormat @ [MobileFormat]"
    by (simp add: rules_before_name_length rules_before_mobile)
  have 3: "first_failing rt (contact n (lit ''jo@x.com'') m others) [MobileFormat] = Inr None"
    by (simp add: contact_fields assms(3) mobile_invalid_skipped)
  show ?thesis
    by (simp only: 2 first_failing_append 1 3 sum.case option.case)
qed

text \<open>
  C5, as stated: a name longer than 100 characters would be answered 400. The example
  body whose name is 100 letters and a space has a name of 101 characters, passes the
  earlier rules and is accepted: the length that is compared is that of the trimmed
  name.
\<close>

theorem long_name_counterexample:
  "field padded_name_body ''name'' = Some (JStr (replicate 100 0x61 @ [0x20])) \<and>
   100 < length (replicate 100 (0x61 :: jschar) @ [0x20]) \<and>
   first_failing sample_runtime padded_name_body (rules_before NameLength) = Inr None \<and>
   validateInput sample_runtime padded_name_body = Inr \<lparr>isValid = True, message = None\<rparr> \<and>
   status (handleRequest (\<lambda>q. Responded 200) sample_runtime sample_env
     (post_contact padded_name_body)) = 200"
proof -
  have t: "trim (replicate 100 0x61 @ [0x20]) = replicate 100 0x61"
    using trim_padded [of 99] by simp
  have before: "first_failing sample_runtime padded_name_body (rules_before NameLength) = Inr None"
    unfolding padded_name_body_def
    by (rule letters_before_lengths) (simp_all add: t trim_Hi, simp add: lit_def)
  have later: "first_failing sample_runtime padded_name_body
      [NameLength, SubjectLength, MessageLength] = Inr None"
    unfolding padded_name_body_def
    by (rule later_rules_short) (simp_all add: t trim_Hi, simp add: lit_def)
  have valid: "validateInput sample_runtime padded_name_body = Inr \<lparr>isValid = True, message = None\<rparr>"
    by (simp only: validateInput_at_lengths [OF before] later verdict_def sum.case option.case)
  have "\<exists>q. emailRequest sample_runtime sample_env padded_name_body = Inr (Ready q)"
    unfolding padded_name_body_def by (rule emailRequest_ready [OF sample_env_set]) simp_all
  then obtain q where q: "emailRequest sample_runtime sample_env padded_name_body = Inr (Ready q)" ..
  have "handleRequest (\<lambda>q. Responded 200) sample_runtime sample_env (post_contact padded_name_body) =
     (if sendEmail (\<lambda>q. Responded 200) sample_runtime sample_env padded_name_body then
        \<lparr>status = 200,
         headers = (''Content-Type'', ''application/json'') # getCORSHeaders,
         body = Some (JSON_stringify ''success'' ''Your inquiry has been sent.'')\<rparr>
      else createErrorResponse ''Unable to send your inquiry. Please try again later.'' 500)"
    by (rule handle_valid [OF _ _ _ valid]) (simp_all add: post_contact_def)
  then have "status (handleRequest (\<lambda>q. Responded 200) sample_runtime sample_env
     (post_contact padded_name_body)) = 200"
    by (simp add: sendEmail_ready [OF q] ok_def)
  moreover have "field padded_name_body ''name'' = Some (JStr (replicate 100 0x61 @ [0x20]))"
    by (simp add: padded_name_body_def contact_fields)
  ultimately show ?thesis using before valid by simp
qed

text \<open>
  C5, amended. For a POST to /contact whose body passes the rules before the length
  rules and whose subject is absent or a string: a name of more than 100 characters
  after trimming is answered 400 "Name must be less than 100 characters"; failing
  that, a subject of more than 200 characters is answered 400 "Subject must be less
  than 200 characters"; failing that, a message of more than 1000 characters after
  trimming is answered 400 "Message must be less than 1000 characters"; and a trimmed
  name of at most 100, a subject of at most 200 and a trimmed message of at most 1000
  characters are accepted.
\<close>

theorem length_limits_on_trimmed_text:
  assumes "req_method rq = ''POST''" and "req_pathname rq = ''/contact''"
    and "req_json rq = Some d"
    and "first_failing rt d (rules_before NameLength) = Inr None"
    and "field d ''subject'' = None \<or> (\<exists>s. field d ''subject'' = Some (JStr s))"
  shows
    \<open>(100 < length (trimmed (field d ''name'')) \<longrightarrow>
        status (handleRequest fetch rt env rq) = 400 \<and>
        body (handleRequest fetch rt env rq) =
          Some ''{"status":"error","message":"Name must be less than 100 characters"}'') \<and>
     (length (trimmed (field d ''name'')) \<le> 100 \<and>
      200 < length (string_value (field d ''subject'')) \<longrightarrow>
        status (handleRequest fetch rt env rq) = 400 \<and>
        body (handleRequest fetch rt env rq) =
          Some ''{"status":"error","message":"Subject must be less than 200 characters"}'') \<and>
     (length (trimmed (field d ''name'')) \<le> 100 \<and>
      length (string_value (field d ''subject'')) \<le> 200 \<and>
      1000 < length (trimmed (field d ''message'')) \<longrightarrow>
        status (handleRequest fetch rt env rq) = 400 \<and>
        body (handleRequest fetch rt env rq) =
          Some ''{"status":"error","message":"Message must be less than 1000 characters"}'') \<and>
     (length (trimmed (field d ''name'')) \<le> 100 \<and>
      length (string_value (field d ''subject'')) \<le> 200 \<and>
      length (trimmed (field d ''message'')) \<le> 1000 \<longrightarrow>
        validateInput rt d = Inr \<lparr>isValid = True, message = None\<rparr>)\<close>
proof -
  note v = validateInput_at_lengths [OF assms(4)]
  note l = length_rules [OF assms(5), of rt]
  have r: "\<And>r. first_failing rt d [NameLength, SubjectLength, MessageLength] = Inr (Some r) \<Longrightarrow>
      status (handleRequest fetch rt env rq) = 400 \<and>
      body (handleRequest fetch rt env rq) = Some (JSON_stringify ''error'' (rule_message r))"
  proof -
    fix r
    assume "first_failing rt d [NameLength, SubjectLength, MessageLength] = Inr (Some r)"
    then have "first_failing rt d rule_order = Inr (Some r)"
      by (subst rule_order_from_name_length)
         (simp only: first_failing_append assms(4) sum.case option.case)
    from rule_failure_response [OF assms(1-3) this]
    show "status (handleRequest fetch rt env rq) = 400 \<and>
      body (handleRequest fetch rt env rq) = Some (JSON_stringify ''error'' (rule_message r))"
      by simp
  qed
  show ?thesis
  proof (intro conjI impI)
    assume "100 < length (trimmed (field d ''name''))"
    then have "first_failing rt d [NameLength, SubjectLength, MessageLength] = Inr (Some NameLength)"
      by (simp only: l if_True)
    from r [OF this]
    show "status (handleRequest fetch rt env rq) = 400"
      and \<open>body (handleRequest fetch rt env rq) =
          Some ''{"status":"error","message":"Name must be less than 100 characters"}''\<close>
      by (simp_all only: rule_message_text)
  next
    assume "length (trimmed (field d ''name'')) \<le> 100 \<and>
      200 < length (string_value (field d ''subject''))"
    then have "first_failing rt d [NameLength, SubjectLength, MessageLength] = Inr (Some SubjectLength)"
      by (simp only: l) simp
    from r [OF this]
    show "status (handleRequest fetch rt env rq) = 400"
      and \<open>body (handleRequest fetch rt env rq) =
          Some ''{"status":"error","message":"Subject must be less than 200 characters"}''\<close>
      by (simp_all only: rule_message_text)
  next
    assume "length (trimmed (field d ''name'')) \<le> 100 \<and>
      length (string_value (field d ''subject'')) \<le> 200 \<and>
      1000 < length (trimmed (field d ''message''))"
    then have "first_failing rt d [NameLength, SubjectLength, MessageLength] = Inr (Some MessageLength)"
      by (simp only: l) simp
    from r [OF this]
    show "status (handleRequest fetch rt env rq) = 400"
      and \<open>body (handleRequest fetch rt env rq) =
          Some ''{"status":"error","message":"Message must be less than 1000 characters"}''\<close>
      by (simp_all only: rule_message_text)
  next
    assume "length (trimmed (field d ''name'')) \<le> 100 \<and>
      length (string_value (field d ''subject'')) \<le> 200 \<and>
      length (trimmed (field d ''message'')) \<le> 1000"
    then have "first_failing rt d [NameLength, SubjectLength, MessageLength] = Inr None"
      by (simp only: l) simp
    then show "validateInput rt d = Inr \<lparr>isValid = True, message = None\<rparr>"
      by (simp only: v verdict_def sum.case option.case)
  qed
qed

theorem length_limits_on_trimmed_text_witness:
  \<open>status (handleRequest (\<lambda>q. Responded 200) sample_runtime sample_env
      (post_contact long_name_body)) = 400 \<and>
   body (handleRequest (\<lambda>q. Responded 200) sample_runtime sample_env
      (post_contact long_name_body)) =
      Some ''{"status":"error","message":"Name must be less than 100 characters"}'' \<and>
   validateInput sample_runtime limit_body = Inr \<lparr>isValid = True, message = None\<rparr>\<close>
proof -
  have rq: "\<And>d. req_method (post_contact d) = ''POST''"
    "\<And>d. req_pathname (post_contact d) = ''/contact''"
    "\<And>d. req_json (post_contact d) = Some d"
    by (simp_all add: post_contact_def)
  have b1: "first_failing sample_runtime long_name_body (rules_before NameLength) = Inr None"
    unfolding long_name_body_def
    by (rule letters_before_lengths) (simp_all add: trim_letters trim_Hi, simp add: lit_def)
  have b2: "first_failing sample_runtime limit_body (rules_before NameLength) = Inr None"
    unfolding limit_body_def
    by (rule letters_before_lengths) (simp_all add: trim_letters lit_keys lit_keys [symmetric])
  have s1: "field long_name_body ''subject'' = None \<or>
      (\<exists>s. field long_name_body ''subject'' = Some (JStr s))"
    by (simp add: long_name_body_def contact_fields)
  have s2: "field limit_body ''subject'' = None \<or>
      (\<exists>s. field limit_body ''subject'' = Some (JStr s))"
    by (simp add: limit_body_def contact_fields)
  have f1: "trimmed (field long_name_body ''name'') = replicate 101 0x61"
    by (simp add: long_name_body_def contact_fields trimmed_def trim_letters)
  have f2: "trimmed (field limit_body ''name'') = replicate 100 0x61"
    "string_value (field limit_body ''subject'') = replicate 200 0x61"
    "trimmed (field limit_body ''message'') = replicate 1000 0x61"
    by (simp_all add: limit_body_def contact_fields trimmed_def trim_letters string_value_def)
  show ?thesis
    using
      length_limits_on_trimmed_text [where fetch = "\<lambda>q. Responded 200" and env = sample_env,
        OF rq b1 s1]
      length_limits_on_trimmed_text [where fetch = "\<lambda>q. Responded 200" and env = sample_env,
        OF rq b2 s2]
    by (simp add: f1 f2)
qed

section \<open>Escaping in the HTML text\<close>

lemma replace_all_concat:
  "replace_all c r (concat xss) = concat (map (replace_all c r) xss)"
  by (induction xss) (simp_all add: replace_all_def)

lemma replace_all_entity:
  "replace_all 0x27 (lit ''&#039;'')
     (replace_all 0x22 (lit ''&quot;'')
       (replace_all 0x3E (lit ''&gt;'')
         (replace_all 0x3C (lit ''&lt;'')
           (if x = 0x26 then lit ''&amp;'' else [x])))) = entity x"
  by (simp add: entity_def replace_all_def lit_def)

lemma escapeHtml_entities: "escapeHtml s = concat (map entity s)"
proof -
  have "escapeHtml s =
      concat (map (\<lambda>x. replace_all 0x27 (lit ''&#039;'')
        (replace_all 0x22 (lit ''&quot;'')
          (replace_all 0x3E (lit ''&gt;'')
            (replace_all 0x3C (lit ''&lt;'')
              (if x = 0x26 then lit ''&amp;'' else [x]))))) s)"
    unfolding escapeHtml_def
    by (subst (5) replace_all_def) (simp only: replace_all_concat map_map comp_def)
  then show ?thesis by (simp only: replace_all_entity)
qed

lemma entity_plain: "set (entity c) \<inter> {0x3C, 0x3E, 0x22, 0x27} = {}"
  by (simp add: entity_def lit_def)

lemma escapeHtml_plain: "set (escapeHtml s) \<inter> {0x3C, 0x3E, 0x22, 0x27} = {}"
  using entity_plain by (auto simp: escapeHtml_entities)


lemma trim_markup: "trim (lit ''<b>Jo</b>'') = lit ''<b>Jo</b>''"
  by (simp add: trim_def lit_def is_space_def)

lemma markup_body_valid:
  "validateInput rt markup_body = Inr \<lparr>isValid = True, message = None\<rparr>"
proof -
  have ne: "lit ''<b>Jo</b>'' \<noteq> []" by (simp add: lit_def)
  have before: "first_failing rt markup_body (rules_before NameLength) = Inr None"
    unfolding markup_body_def
    by (rule letters_before_lengths) (simp_all add: trim_markup trim_Hi ne, simp add: lit_def)
  have later: "first_failing rt markup_body [NameLength, SubjectLength, MessageLength] = Inr None"
    unfolding markup_body_def
    by (rule later_rules_short) (simp_all add: trim_markup trim_Hi, simp_all add: lit_def)
  show ?thesis
    by (simp only: validateInput_at_lengths [OF before] later verdict_def sum.case option.case)
qed

lemma escapeHtml_markup: "escapeHtml (lit ''<b>Jo</b>'') = lit ''&lt;b&gt;Jo&lt;/b&gt;''"
  by (simp add: escapeHtml_entities entity_def lit_def)

lemma escapeHtml_plain_text:
  "escapeHtml (lit ''jo@x.com'') = lit ''jo@x.com''" "escapeHtml (lit ''Hi'') = lit ''Hi''"
  by (simp_all add: escapeHtml_entities entity_def lit_def)

text \<open>
  C4. Whenever \<open>sendEmail\<close> builds an email, and so for every validated submission
  that is sent: name, email and message are strings, mobile and subject are strings
  when they are there, and the HTML text is the fixed template around the escaped
  members (the escaped message with its line feeds turned into \<open><br>\<close>). Escaping
  replaces every \<open>&\<close>, \<open><\<close>, \<open>>\<close>, double quote and single quote of a member by
  its entity and leaves the other characters, so none of \<open><\<close>, \<open>>\<close> and the two
  quotes is left in an escaped member and every \<open>&\<close> in it starts an entity. The
  second source file builds no HTML text at all: its \<open>env\<close> is not bound.
\<close>

theorem html_members_are_escaped:
  assumes "emailRequest rt env d = Inr (Ready q)"
  shows
    "(\<exists>n e m safeMobile safeSubject.
       field d ''name'' = Some (JStr n) \<and> field d ''email'' = Some (JStr e) \<and>
       field d ''message'' = Some (JStr m) \<and>
       (if truthy (field d ''mobile'')
        then \<exists>s. field d ''mobile'' = Some (JStr s) \<and> safeMobile = escapeHtml s
        else safeMobile = []) \<and>
       (if truthy (field d ''subject'')
        then \<exists>s. field d ''subject'' = Some (JStr s) \<and> safeSubject = escapeHtml s
        else safeSubject = lit ''No subject provided'') \<and>
       html_part (payload q) =
         htmlContent (escapeHtml n) (escapeHtml e) safeMobile safeSubject
           (replace_all 0x0A (lit ''<br>'') (escapeHtml m))) \<and>
     (\<forall>t. escapeHtml t = concat (map entity t) \<and>
          set (escapeHtml t) \<inter> {0x3C, 0x3E, 0x22, 0x27} = {}) \<and>
     (\<forall>x. rendered_html (emailRequest_index rt None x) = None)"
proof (intro conjI allI)
  show "\<exists>n e m safeMobile safeSubject.
       field d ''name'' = Some (JStr n) \<and> field d ''email'' = Some (JStr e) \<and>
       field d ''message'' = Some (JStr m) \<and>
       (if truthy (field d ''mobile'')
        then \<exists>s. field d ''mobile'' = Some (JStr s) \<and> safeMobile = escapeHtml s
        else safeMobile = []) \<and>
       (if truthy (field d ''subject'')
        then \<exists>s. field d ''subject'' = Some (JStr s) \<and> safeSubject = escapeHtml s
        else safeSubject = lit ''No subject provided'') \<and>
       html_part (payload q) =
         htmlContent (escapeHtml n) (escapeHtml e) safeMobile safeSubject
           (replace_all 0x0A (lit ''<br>'') (escapeHtml m))"
    by (rule emailRequest_html [OF assms])
next
  fix t
  show "escapeHtml t = concat (map entity t)"
    by (rule escapeHtml_entities)
  show "set (escapeHtml t) \<inter> {0x3C, 0x3E, 0x22, 0x27} = {}"
    by (rule escapeHtml_plain)
next
  fix x
  show "rendered_html (emailRequest_index rt None x) = None"
    by (simp add: emailRequest_index_def rendered_html_def)
qed

theorem html_members_are_escaped_witness:
  "validateInput sample_runtime markup_body = Inr \<lparr>isValid = True, message = None\<rparr> \<and>
   rendered_html (emailRequest sample_runtime sample_env markup_body) =
     Some (htmlContent (lit ''&lt;b&gt;Jo&lt;/b&gt;'') (lit ''jo@x.com'') []
       (lit ''No subject provided'') (lit ''Hi'')) \<and>
   rendered_html (emailRequest_index sample_runtime None markup_body) = None"
proof -
  have "\<exists>q. emailRequest sample_runtime sample_env markup_body = Inr (Ready q)"
    unfolding markup_body_def by (rule emailRequest_ready [OF sample_env_set]) simp_all
  then obtain q where q: "emailRequest sample_runtime sample_env markup_body = Inr (Ready q)" ..
  have f: "field markup_body ''name'' = Some (JStr (lit ''<b>Jo</b>''))"
    "field markup_body ''email'' = Some (JStr (lit ''jo@x.com''))"
    "field markup_body ''message'' = Some (JStr (lit ''Hi''))"
    "field markup_body ''mobile'' = None" "field markup_body ''subject'' = None"
    by (simp_all add: markup_body_def contact_fields)
  have r: "replace_all 0x0A (lit ''<br>'') (lit ''Hi'') = lit ''Hi''"
    by (simp add: replace_all_def lit_def)
  note t = html_members_are_escaped [OF q]
  from t [THEN conjunct1]
  have "html_part (payload q) =
      htmlContent (lit ''&lt;b&gt;Jo&lt;/b&gt;'') (lit ''jo@x.com'') []
        (lit ''No subject provided'') (lit ''Hi'')"
    by (auto simp: f escapeHtml_markup escapeHtml_plain_text r)
  moreover from t [THEN conjunct2, THEN conjunct2]
  have "rendered_html (emailRequest_index sample_runtime None markup_body) = None"
    by (rule spec)
  ultimately show ?thesis
    by (simp add: markup_body_valid rendered_html_def q)
qed

text \<open>
  Were a variable \<open>env\<close> bound for the second source file, with the settings in it,
  its HTML text would carry the members as they came: for the example body whose name
  is \<open><b>Jo</b>\<close> the name would stand there with its markup, where the first
  source file writes \<open>&lt;b&gt;Jo&lt;/b&gt;\<close>.
\<close>

lemma second_file_html_with_env_bound:
  \<open>validateInput sample_runtime markup_body = Inr \<lparr>isValid = True, message = None\<rparr> \<and>
   rendered_html (emailRequest_index sample_runtime (Some sample_env) markup_body) =
     Some (lit (text_lines
       ['''',
        ''      <h2>New Contact Form Submission</h2>'',
        ''      <p><strong>Name:</strong> <b>Jo</b></p>'',
        ''      <p><strong>Email:</strong> jo@x.com</p>'',
        ''      '',
        ''      <p><strong>Subject:</strong> No subject provided</p>'',
        ''      <h3>Message:</h3>'',
        ''      <p>Hi</p>'',
        ''      <hr>'',
        ''      <p><em>This message was sent via the contact form on desallyltd.com</em></p>'',
        ''    ''])) \<and>
   rendered_html (emailRequest sample_runtime sample_env markup_body) =
     Some (htmlContent (lit ''&lt;b&gt;Jo&lt;/b&gt;'') (lit ''jo@x.com'') []
       (lit ''No subject provided'') (lit ''Hi''))\<close>
proof (intro conjI)
  show "validateInput sample_runtime markup_body = Inr \<lparr>isValid = True, message = None\<rparr>"
    by (rule markup_body_valid)
next
  have g: "\<And>k. get_prop (Some markup_body) (lit k) = Inr (field markup_body k)"
    by (rule get_prop_field) (simp add: markup_body_def contact_fields)
  have f: "field markup_body ''name'' = Some (JStr (lit ''<b>Jo</b>''))"
    "field markup_body ''email'' = Some (JStr (lit ''jo@x.com''))"
    "field markup_body ''message'' = Some (JStr (lit ''Hi''))"
    "field markup_body ''mobile'' = None" "field markup_body ''subject'' = None"
    by (simp_all add: markup_body_def contact_fields)
  have r: "replace_all 0x0A (lit ''<br>'') (lit ''Hi'') = lit ''Hi''"
    by (simp add: replace_all_def lit_def)
  have "rendered_html (emailRequest_index sample_runtime (Some sample_env) markup_body) =
      Some (htmlContent_index (lit ''<b>Jo</b>'') (lit ''jo@x.com'') []
        (lit ''No subject provided'') (lit ''Hi''))"
    unfolding emailRequest_index_def Let_def g f
    using sample_env_set
    by (simp add: rendered_html_def andThen_def String_string js_or_def r)
  then show \<open>rendered_html (emailRequest_index sample_runtime (Some sample_env) markup_body) =
     Some (lit (text_lines
       ['''',
        ''      <h2>New Contact Form Submission</h2>'',
        ''      <p><strong>Name:</strong> <b>Jo</b></p>'',
        ''      <p><strong>Email:</strong> jo@x.com</p>'',
        ''      '',
        ''      <p><strong>Subject:</strong> No subject provided</p>'',
        ''      <h3>Message:</h3>'',
        ''      <p>Hi</p>'',
        ''      <hr>'',
        ''      <p><em>This message was sent via the contact form on desallyltd.com</em></p>'',
        ''    '']))\<close>
    by (simp add: htmlContent_index_def lit_def)
next
  have g: "\<And>k. get_prop (Some markup_body) (lit k) = Inr (field markup_body k)"
    by (rule get_prop_field) (simp add: markup_body_def contact_fields)
  have f: "field markup_body ''name'' = Some (JStr (lit ''<b>Jo</b>''))"
    "field markup_body ''email'' = Some (JStr (lit ''jo@x.com''))"
    "field markup_body ''message'' = Some (JStr (lit ''Hi''))"
    "field markup_body ''mobile'' = None" "field markup_body ''subject'' = None"
    by (simp_all add: markup_body_def contact_fields)
  have r: "replace_all 0x0A (lit ''<br>'') (lit ''Hi'') = lit ''Hi''"
    by (simp add: replace_all_def lit_def)
  show "rendered_html (emailRequest sample_runtime sample_env markup_body) =
     Some (htmlContent (lit ''&lt;b&gt;Jo&lt;/b&gt;'') (lit ''jo@x.com'') []
       (lit ''No subject provided'') (lit ''Hi''))"
    unfolding emailRequest_def Let_def g f
    using sample_env_set
    by (simp add: rendered_html_def andThen_def String_string js_or_def r escapeHtml_markup
          escapeHtml_plain_text)
qed

section \<open>A mobile that is a number, after validation\<close>

lemma number_mobile_body_valid:
  "validateInput rt number_mobile_body = Inr \<lparr>isValid = True, message = None\<rparr>"
proof -
  have before: "first_failing rt number_mobile_body (rules_before MobileFormat) = Inr None"
    unfolding number_mobile_body_def by (rule sample_before_mobile)
  have f: "field number_mobile_body ''mobile'' = Some (JNum (Fin (of_nat 1234567)))"
    by (simp add: number_mobile_body_def contact_fields)
  have m: "mobile_invalid rt (Some (JNum (Fin (of_nat 1234567)))) = Inr False"
    by (rule mobile_invalid_number) simp_all
  have mobile: "first_failing rt number_mobile_body [MobileFormat] = Inr None"
    by (simp only: first_failing.simps rule_fails.simps f m sum.case bool.case)
  have later: "first_failing rt number_mobile_body [NameLength, SubjectLength, MessageLength] =
      Inr None"
    unfolding number_mobile_body_def by (rule sample_later_rules) (simp add: lit_keys)
  have r: "rule_order = rules_before MobileFormat @ [MobileFormat] @
      [NameLength, SubjectLength, MessageLength]"
    by (simp add: rule_order_from_mobile)
  have "first_failing rt number_mobile_body rule_order = Inr None"
    by (subst r) (simp only: first_failing_append before mobile later sum.case option.case)
  then show ?thesis
    by (simp only: validateInput_rules verdict_def sum.case option.case)
qed

text \<open>
  What follows validation for a mobile that is a number: \<open>sendEmail\<close> of the first
  source file hands it to \<open>escapeHtml\<close>, which raises on a value that is not a string,
  so nothing is sent and the response is the generic 500.
\<close>

lemma number_mobile_is_not_sent:
  "emailRequest sample_runtime sample_env number_mobile_body = Inl TypeError \<and>
   status (handleRequest (\<lambda>q. Responded 200) sample_runtime sample_env
     (post_contact number_mobile_body)) = 500"
proof -
  have g: "\<And>k. get_prop (Some number_mobile_body) (lit k) = Inr (field number_mobile_body k)"
    by (rule get_prop_field) (simp add: number_mobile_body_def contact_fields)
  have f: "field number_mobile_body ''name'' = Some (JStr (lit ''Jo''))"
    "field number_mobile_body ''email'' = Some (JStr (lit ''jo@x.com''))"
    "field number_mobile_body ''message'' = Some (JStr (lit ''Hi''))"
    "field number_mobile_body ''mobile'' = Some (JNum (Fin 1234567))"
    "field number_mobile_body ''subject'' = None"
    by (simp_all add: number_mobile_body_def contact_fields lit_keys)
  have e: "emailRequest sample_runtime sample_env number_mobile_body = Inl TypeError"
    unfolding emailRequest_def Let_def g f
    using sample_env_set
    by (simp add: andThen_def String_string js_or_def)
  have "handleRequest (\<lambda>q. Responded 200) sample_runtime sample_env (post_contact number_mobile_body) =
     (if sendEmail (\<lambda>q. Responded 200) sample_runtime sample_env number_mobile_body then
        \<lparr>status = 200,
         headers = (''Content-Type'', ''application/json'') # getCORSHeaders,
         body = Some (JSON_stringify ''success'' ''Your inquiry has been sent.'')\<rparr>
      else createErrorResponse ''Unable to send your inquiry. Please try again later.'' 500)"
    by (rule handle_valid [where v = "\<lparr>isValid = True, message = None\<rparr>"])
       (simp_all add: post_contact_def number_mobile_body_valid)
  then have "status (handleRequest (\<lambda>q. Responded 200) sample_runtime sample_env
     (post_contact number_mobile_body)) = 500"
    by (simp add: sendEmail_def e createErrorResponse_def)
  with e show ?thesis by simp
qed

end
